theory Spec2Isabelle
  imports Complex_Main "HOL-Library.Word" "HOL-Library.Log_Nat"
begin

unbundle bit_operations_syntax

section \<open>BaseWindow: the native window wrapper of the terminal\<close>

text \<open>
  A shallow embedding of \<^verbatim>\<open>src/cascadia/WindowsTerminal/BaseWindow.h\<close>.
  The class template \<^verbatim>\<open>BaseWindow<T>\<close> becomes a record of its five data members and one
  function per member function. Every call that leaves the class (a Win32 API call or one of
  the pure virtual hooks \<^verbatim>\<open>OnResize\<close>, \<^verbatim>\<open>OnMinimize\<close>, \<^verbatim>\<open>OnRestore\<close>) is written to a
  trace, in program order, together with the field values the object has at the moment of the
  call. What the operating system answers is taken from a record of answers (type \<open>os\<close>).
  The hooks have no body in this class and the Win32 functions are not part of it: a call of
  either is taken to leave the fields of the object as they are.
\<close>

subsection \<open>Machine types and Win32 constants\<close>

type_synonym UINT = "32 word"
type_synonym LONG = "32 word"      \<comment> \<open>signed 32 bit, read with \<open>sint\<close>\<close>
type_synonym WORD = "16 word"
type_synonym WPARAM = "64 word"    \<comment> \<open>\<^verbatim>\<open>UINT_PTR\<close> on a 64-bit target\<close>
type_synonym LPARAM = "64 word"    \<comment> \<open>\<^verbatim>\<open>LONG_PTR\<close> on a 64-bit target\<close>
type_synonym LRESULT = "64 word"
type_synonym HWND = "64 word"      \<comment> \<open>a handle; \<open>0\<close> is \<^verbatim>\<open>nullptr\<close>\<close>
type_synonym pointer = "64 word"   \<comment> \<open>an address; \<open>0\<close> is \<^verbatim>\<open>nullptr\<close>\<close>
type_synonym wstring = "16 word list"   \<comment> \<open>\<^verbatim>\<open>std::wstring\<close>: a sequence of \<^verbatim>\<open>wchar_t\<close>\<close>

text \<open>
  The message numbers and flags have the values of the Windows SDK (\<^verbatim>\<open>winuser.h\<close>);
  \<^verbatim>\<open>CM_UPDATE_TITLE\<close> is defined by the source itself, as \<^verbatim>\<open>WM_USER\<close>.
\<close>

definition WM_DESTROY :: UINT where "WM_DESTROY = 0x0002"
definition WM_SIZE :: UINT where "WM_SIZE = 0x0005"
definition WM_NCCREATE :: UINT where "WM_NCCREATE = 0x0081"
definition WM_DPICHANGED :: UINT where "WM_DPICHANGED = 0x02E0"
definition WM_USER :: UINT where "WM_USER = 0x0400"
definition CM_UPDATE_TITLE :: UINT where "CM_UPDATE_TITLE = WM_USER"

definition SIZE_RESTORED :: WPARAM where "SIZE_RESTORED = 0"
definition SIZE_MINIMIZED :: WPARAM where "SIZE_MINIMIZED = 1"
definition SIZE_MAXIMIZED :: WPARAM where "SIZE_MAXIMIZED = 2"

definition GW_CHILD :: UINT where "GW_CHILD = 5"
definition GWLP_USERDATA :: "32 word" where "GWLP_USERDATA = - 21"
definition SWP_NOZORDER :: UINT where "SWP_NOZORDER = 0x0004"
definition SWP_NOACTIVATE :: UINT where "SWP_NOACTIVATE = 0x0010"
definition USER_DEFAULT_SCREEN_DPI :: int where "USER_DEFAULT_SCREEN_DPI = 96"

text \<open>\<^verbatim>\<open>LOWORD(l) = (WORD)(l & 0xffff)\<close> and \<^verbatim>\<open>HIWORD(l) = (WORD)((l >> 16) & 0xffff)\<close>.\<close>

definition LOWORD :: "64 word \<Rightarrow> WORD" where
  "LOWORD l = ucast (l AND 0xffff)"

definition HIWORD :: "64 word \<Rightarrow> WORD" where
  "HIWORD l = ucast (drop_bit 16 l AND 0xffff)"

record RECT =
  left :: LONG
  top :: LONG
  right :: LONG
  bottom :: LONG

record SIZE =
  cx :: LONG
  cy :: LONG

subsection \<open>Single-precision floating point\<close>

text \<open>
  \<^verbatim>\<open>float\<close> is IEEE 754 binary32. A value is a rational number that binary32 represents,
  an infinity, or a NaN. Every operation computes the exact rational result and rounds it to
  the nearest representable value, ties to the even significand (the default rounding mode):
  24 significant bits, least exponent \<open>-126\<close> (below it the subnormal spacing \<open>2 powi -149\<close>),
  overflow to an infinity from \<open>2 ^ 128\<close> on. The sign of a zero is not represented: every
  zero is the positive one, which is the only zero that the functions below can divide by.
\<close>

datatype float = Finite rat | PInf | NInf | NaN

definition round_ties_even :: "rat \<Rightarrow> int" where
  "round_ties_even x =
     (let f = \<lfloor>x\<rfloor>; d = x - of_int f
      in if d < 1 / 2 then f
         else if 1 / 2 < d then f + 1
         else if even f then f else f + 1)"

text \<open>\<open>ilog2 x\<close> is the exponent \<open>e\<close> with \<open>2 powi e \<le> x < 2 powi (e + 1)\<close>, for \<open>0 < x\<close>.\<close>

definition ilog2 :: "rat \<Rightarrow> int" where
  "ilog2 x =
     (if 1 \<le> x then bitlen \<lfloor>x\<rfloor> - 1
      else - bitlen (\<lceil>1 / x\<rceil> - 1))"

definition round_float :: "rat \<Rightarrow> float" where
  "round_float x =
     (if x = 0 then Finite 0
      else
        let e = max (ilog2 \<bar>x\<bar>) (- 126);
            q = 2 powi (e - 23);
            r = of_int (round_ties_even (x / q)) * q
        in if 2 ^ 128 \<le> \<bar>r\<bar> then (if 0 < x then PInf else NInf) else Finite r)"

definition float_of_int :: "int \<Rightarrow> float" where
  "float_of_int i = round_float (of_int i)"

fun float_div :: "float \<Rightarrow> float \<Rightarrow> float" where
  "float_div NaN _ = NaN"
| "float_div _ NaN = NaN"
| "float_div (Finite a) (Finite b) =
     (if b = 0 then (if a = 0 then NaN else if 0 < a then PInf else NInf)
      else round_float (a / b))"
| "float_div (Finite a) _ = Finite 0"
| "float_div PInf (Finite b) = (if 0 \<le> b then PInf else NInf)"
| "float_div NInf (Finite b) = (if 0 \<le> b then NInf else PInf)"
| "float_div _ _ = NaN"

fun float_add :: "float \<Rightarrow> float \<Rightarrow> float" where
  "float_add NaN _ = NaN"
| "float_add _ NaN = NaN"
| "float_add (Finite a) (Finite b) = round_float (a + b)"
| "float_add (Finite a) y = y"
| "float_add x (Finite b) = x"
| "float_add PInf PInf = PInf"
| "float_add NInf NInf = NInf"
| "float_add _ _ = NaN"

text \<open>\<^verbatim>\<open>winrt::Windows::Foundation::Size\<close> has two \<^verbatim>\<open>float\<close> members.\<close>

record Size =
  Width :: float
  Height :: float

subsection \<open>The object, the operating system and the trace\<close>

text \<open>
  The data members of \<^verbatim>\<open>BaseWindow\<close>, which the source spells \<^verbatim>\<open>_window\<close>,
  \<^verbatim>\<open>_currentDpi\<close>, \<^verbatim>\<open>_inDpiChange\<close>, \<^verbatim>\<open>_title\<close> and \<^verbatim>\<open>_minimized\<close>.
  \<^verbatim>\<open>wil::unique_hwnd\<close> owns one handle; \<open>0\<close> is the empty owner.
\<close>

record BaseWindow =
  m_window :: HWND
  m_currentDpi :: UINT
  m_inDpiChange :: bool
  m_title :: wstring
  m_minimized :: bool

text \<open>The default member initialisers.\<close>

definition BaseWindow_init :: BaseWindow where
  "BaseWindow_init =
     \<lparr>m_window = 0, m_currentDpi = 0, m_inDpiChange = False, m_title = [], m_minimized = False\<rparr>"

text \<open>
  What the operating system answers: the return values of the Win32 queries and the contents
  of the memory a message parameter points to (the \<^verbatim>\<open>RECT\<close> of \<^verbatim>\<open>WM_DPICHANGED\<close>, the
  \<^verbatim>\<open>lpCreateParams\<close> member of the \<^verbatim>\<open>CREATESTRUCT\<close> of \<^verbatim>\<open>WM_NCCREATE\<close>).
  \<^verbatim>\<open>GetClientRect\<close> and \<^verbatim>\<open>GetWindowRect\<close> write the rectangle only when they succeed.
  \<open>lpCreateParams_at os lparam\<close> is \<open>None\<close> when \<open>lparam\<close> is not the address of a
  \<^verbatim>\<open>CREATESTRUCT\<close>, as the null pointer is not.
\<close>

record os =
  DefWindowProc_result :: "HWND \<Rightarrow> UINT \<Rightarrow> WPARAM \<Rightarrow> LPARAM \<Rightarrow> LRESULT"
  GetWindow_result :: "HWND \<Rightarrow> UINT \<Rightarrow> HWND"
  GetDpiForWindow_result :: "HWND \<Rightarrow> UINT"
  GetClientRect_result :: "HWND \<Rightarrow> RECT option"
  GetWindowRect_result :: "HWND \<Rightarrow> RECT option"
  RECT_at :: "LPARAM \<Rightarrow> RECT"
  lpCreateParams_at :: "LPARAM \<Rightarrow> pointer option"

text \<open>The calls that leave the class: the three hooks and the Win32 functions.\<close>

datatype event =
    OnResize UINT UINT
  | OnMinimize
  | OnRestore
  | PostQuitMessage "32 word"
  | SetWindowTextW HWND wstring
  | DefWindowProc HWND UINT WPARAM LPARAM
  | GetWindow HWND UINT
  | SetWindowPos HWND HWND LONG LONG LONG LONG UINT
  | PostMessageW HWND UINT WPARAM LPARAM
  | GetWindowLongPtr HWND "32 word"
  | SetWindowLongPtr HWND "32 word" pointer
  | EnableNonClientDpiScaling HWND
  | GetDpiForWindow HWND
  | DestroyWindow HWND

text \<open>
  A trace lists the calls in program order, each with the state the program has when it makes
  the call: a call may run code that looks at the object before the caller goes on.
\<close>

type_synonym 's trace = "('s \<times> event) list"

text \<open>
  \<^verbatim>\<open>c_str()\<close> hands a Win32 function the address of the characters, and the function reads them
  up to the first null character.
\<close>

definition c_str :: "wstring \<Rightarrow> wstring" where
  "c_str s = takeWhile (\<lambda>c. c \<noteq> 0) s"

subsection \<open>The member functions\<close>

definition HandleDpiChange ::
  "os \<Rightarrow> BaseWindow \<Rightarrow> HWND \<Rightarrow> WPARAM \<Rightarrow> LPARAM \<Rightarrow> BaseWindow \<times> BaseWindow trace \<times> LRESULT" where
  "HandleDpiChange os w hWnd wParam lParam =
     (let w1 = w\<lparr>m_inDpiChange := True\<rparr>;
          hWndStatic = GetWindow_result os hWnd GW_CHILD;
          t1 = [(w1, GetWindow hWnd GW_CHILD)];
          (w2, t2) =
            (if hWndStatic \<noteq> 0 then
               let uDpi = (ucast (HIWORD wParam) :: UINT);
                   lprcNewScale = RECT_at os lParam
               in (w1\<lparr>m_currentDpi := uDpi\<rparr>,
                   [(w1, SetWindowPos hWnd 0 (left lprcNewScale) (top lprcNewScale)
                           (right lprcNewScale - left lprcNewScale)
                           (bottom lprcNewScale - top lprcNewScale)
                           (SWP_NOZORDER OR SWP_NOACTIVATE))])
             else (w1, []));
          w3 = w2\<lparr>m_inDpiChange := False\<rparr>
      in (w3, t1 @ t2, 0))"

text \<open>The body of \<^verbatim>\<open>case WM_SIZE\<close>, up to its \<^verbatim>\<open>break\<close>.\<close>

definition MessageHandler_WM_SIZE ::
  "BaseWindow \<Rightarrow> WPARAM \<Rightarrow> LPARAM \<Rightarrow> BaseWindow \<times> BaseWindow trace" where
  "MessageHandler_WM_SIZE w wparam lparam =
     (let width = (ucast (LOWORD lparam) :: UINT);
          height = (ucast (HIWORD lparam) :: UINT)
      in if wparam = SIZE_MAXIMIZED \<or> wparam = SIZE_RESTORED then
           let (w1, t1) =
                 (if m_minimized w
                  then (w\<lparr>m_minimized := False\<rparr>, [(w\<lparr>m_minimized := False\<rparr>, OnRestore)])
                  else (w, []))
           in (w1, t1 @ [(w1, OnResize width height)])
         else if wparam = SIZE_MINIMIZED then
           (if \<not> m_minimized w
            then (w\<lparr>m_minimized := True\<rparr>, [(w\<lparr>m_minimized := True\<rparr>, OnMinimize)])
            else (w, []))
         else (w, []))"

definition MessageHandler ::
  "os \<Rightarrow> BaseWindow \<Rightarrow> UINT \<Rightarrow> WPARAM \<Rightarrow> LPARAM \<Rightarrow> BaseWindow \<times> BaseWindow trace \<times> LRESULT" where
  "MessageHandler os w message wparam lparam =
     (if message = WM_DPICHANGED then HandleDpiChange os w (m_window w) wparam lparam
      else if message = WM_DESTROY then (w, [(w, PostQuitMessage 0)], 0)
      else
        let (w1, t1) =
              (if message = WM_SIZE then MessageHandler_WM_SIZE w wparam lparam
               else if message = CM_UPDATE_TITLE
                 then (w, [(w, SetWindowTextW (m_window w) (c_str (m_title w)))])
               else (w, []))
        in (w1, t1 @ [(w1, DefWindowProc (m_window w1) message wparam lparam)],
            DefWindowProc_result os (m_window w1) message wparam lparam))"

definition GetWindowRect :: "os \<Rightarrow> BaseWindow \<Rightarrow> RECT" where
  "GetWindowRect os w =
     (case GetWindowRect_result os (m_window w) of
        None \<Rightarrow> \<lparr>left = 0, top = 0, right = 0, bottom = 0\<rparr>
      | Some rc \<Rightarrow> rc)"

definition GetHandle :: "BaseWindow \<Rightarrow> HWND" where
  "GetHandle w = m_window w"

definition GetCurrentDpiScale :: "os \<Rightarrow> BaseWindow \<Rightarrow> float" where
  "GetCurrentDpiScale os w =
     (let dpi = GetDpiForWindow_result os (m_window w);
          scale = float_div (float_of_int (uint dpi)) (float_of_int USER_DEFAULT_SCREEN_DPI)
      in scale)"

definition GetPhysicalSize :: "os \<Rightarrow> BaseWindow \<Rightarrow> SIZE" where
  "GetPhysicalSize os w =
     (let rect = (case GetClientRect_result os (m_window w) of
                    None \<Rightarrow> \<lparr>left = 0, top = 0, right = 0, bottom = 0\<rparr>
                  | Some rc \<Rightarrow> rc);
          windowsWidth = right rect - left rect;
          windowsHeight = bottom rect - top rect
      in \<lparr>cx = windowsWidth, cy = windowsHeight\<rparr>)"

definition GetLogicalSize :: "os \<Rightarrow> BaseWindow \<Rightarrow> SIZE \<Rightarrow> Size" where
  "GetLogicalSize os w physicalSize =
     (let scale = GetCurrentDpiScale os w;
          logicalWidth = float_add (float_div (float_of_int (sint (cx physicalSize))) scale) (Finite (1 / 2));
          logicalHeigth = float_add (float_div (float_of_int (sint (cy physicalSize))) scale) (Finite (1 / 2))
      in \<lparr>Width = logicalWidth, Height = logicalHeigth\<rparr>)"

text \<open>The overload of \<^verbatim>\<open>GetLogicalSize\<close> without a parameter.\<close>

definition GetLogicalSize0 :: "os \<Rightarrow> BaseWindow \<Rightarrow> Size" where
  "GetLogicalSize0 os w = GetLogicalSize os w (GetPhysicalSize os w)"

definition UpdateTitle :: "BaseWindow \<Rightarrow> wstring \<Rightarrow> BaseWindow \<times> BaseWindow trace" where
  "UpdateTitle w newTitle =
     (let w1 = w\<lparr>m_title := newTitle\<rparr>
      in (w1, [(w1, PostMessageW (m_window w1) CM_UPDATE_TITLE 0 0)]))"

subsection \<open>The window procedure\<close>

text \<open>
  \<^verbatim>\<open>WndProc\<close> is static: it finds the object through a pointer. The program state is the
  store of \<^verbatim>\<open>T\<close> objects by address and the \<^verbatim>\<open>GWLP_USERDATA\<close> slot of each window, which
  \<^verbatim>\<open>SetWindowLongPtr\<close> writes and \<^verbatim>\<open>GetWindowLongPtr\<close> reads; the null handle is no window,
  and \<^verbatim>\<open>SetWindowLongPtr\<close> stores nothing for it. No object is at the null address: the use of
  a pointer to no object, and of \<open>lparam\<close> where it is not the address of a
  \<^verbatim>\<open>CREATESTRUCT\<close>, ends the call with \<open>AccessViolation\<close>.

  \<^verbatim>\<open>WINRT_ASSERT\<close> is a macro of C++/WinRT, not of this source. Where \<^verbatim>\<open>_DEBUG\<close> is defined it
  checks its condition, and a false condition ends the call with \<open>AssertFailed\<close>; elsewhere it
  expands to \<^verbatim>\<open>((void)0)\<close> and the code goes on. The parameter \<open>debug\<close> of \<open>WndProc\<close> says
  which of the two the build is.

  \<^verbatim>\<open>that->_window = wil::unique_hwnd(window)\<close> is the move assignment of \<^verbatim>\<open>wil::unique_hwnd\<close>:
  a handle that the object already owns is closed with \<^verbatim>\<open>DestroyWindow\<close> before the new one
  is stored.
\<close>

record machine =
  objects :: "pointer \<rightharpoonup> BaseWindow"
  userdata :: "HWND \<Rightarrow> pointer"

datatype error = AssertFailed | AccessViolation

definition GetThisFromHandle :: "machine \<Rightarrow> HWND \<Rightarrow> pointer" where
  "GetThisFromHandle m window = userdata m window"

definition at_object :: "machine \<Rightarrow> pointer \<Rightarrow> BaseWindow \<Rightarrow> machine" where
  "at_object m p w = m\<lparr>objects := (objects m)(p \<mapsto> w)\<rparr>"

definition object_at :: "machine \<Rightarrow> pointer \<Rightarrow> BaseWindow option" where
  "object_at m p = (if p = 0 then None else objects m p)"

definition WndProc ::
  "bool \<Rightarrow> os \<Rightarrow> machine \<Rightarrow> HWND \<Rightarrow> UINT \<Rightarrow> WPARAM \<Rightarrow> LPARAM
     \<Rightarrow> error + machine \<times> machine trace \<times> LRESULT" where
  "WndProc debug os m window message wparam lparam =
     (if debug \<and> window = 0 then Inl AssertFailed
      else if WM_NCCREATE = message then
        (case lpCreateParams_at os lparam of
           None \<Rightarrow> Inl AccessViolation
         | Some that \<Rightarrow>
             if debug \<and> that = 0 then Inl AssertFailed
             else
               (case object_at m that of
                  None \<Rightarrow> Inl AccessViolation
                | Some t \<Rightarrow>
                    if debug \<and> m_window t \<noteq> 0 then Inl AssertFailed
                    else
                      let t0 = (if m_window t \<noteq> 0 then [(m, DestroyWindow (m_window t))] else []);
                          m1 = at_object m that (t\<lparr>m_window := window\<rparr>);
                          m2 = (if window = 0 then m1
                                else m1\<lparr>userdata := (userdata m1)(window := that)\<rparr>);
                          m3 = at_object m2 that
                                 (t\<lparr>m_window := window,
                                    m_currentDpi := GetDpiForWindow_result os window\<rparr>)
                      in Inr (m3,
                              t0 @
                              [(m1, SetWindowLongPtr window GWLP_USERDATA that),
                               (m2, EnableNonClientDpiScaling window),
                               (m2, GetDpiForWindow window),
                               (m3, DefWindowProc window message wparam lparam)],
                              DefWindowProc_result os window message wparam lparam)))
      else
        let that = GetThisFromHandle m window;
            t0 = [(m, GetWindowLongPtr window GWLP_USERDATA)]
        in if that \<noteq> 0 then
             (case object_at m that of
                None \<Rightarrow> Inl AccessViolation
              | Some t \<Rightarrow>
                  let (t', tr, r) = MessageHandler os t message wparam lparam
                  in Inr (at_object m that t', t0 @ map (\<lambda>(s, e). (at_object m that s, e)) tr, r))
           else Inr (m, t0 @ [(m, DefWindowProc window message wparam lparam)],
                     DefWindowProc_result os window message wparam lparam))"

subsection \<open>Message sequences\<close>




fun is_OnResize :: "event \<Rightarrow> bool" where
  "is_OnResize (OnResize width height) = True"
| "is_OnResize e = False"

text \<open>
  An operating system for the examples: every window has the same DPI and the same child. The
  \<^verbatim>\<open>CREATESTRUCT\<close> at the address \<open>0x2000\<close> has a null \<^verbatim>\<open>lpCreateParams\<close>, and the one at any
  other address but the null one has its own address there.
\<close>

definition os_example :: "UINT \<Rightarrow> HWND \<Rightarrow> os" where
  "os_example dpi child =
     \<lparr>DefWindowProc_result = (\<lambda>window message wparam lparam. 0),
      GetWindow_result = (\<lambda>window cmd. child),
      GetDpiForWindow_result = (\<lambda>window. dpi),
      GetClientRect_result = (\<lambda>window. Some \<lparr>left = 0, top = 0, right = 800, bottom = 600\<rparr>),
      GetWindowRect_result = (\<lambda>window. Some \<lparr>left = 10, top = 10, right = 810, bottom = 610\<rparr>),
      RECT_at = (\<lambda>p. \<lparr>left = 10, top = 10, right = 810, bottom = 610\<rparr>),
      lpCreateParams_at = (\<lambda>p. if p = 0 then None else if p = 0x2000 then Some 0 else Some p)\<rparr>"

text \<open>
  A program state for the examples: one object, at address \<open>0x1000\<close>, which the user data of
  the window \<open>0x42\<close> points to when the object owns that window.
\<close>

definition machine_example :: "BaseWindow \<Rightarrow> machine" where
  "machine_example t =
     \<lparr>objects = [0x1000 \<mapsto> t],
      userdata = (\<lambda>window. if window = 0x42 \<and> m_window t = 0x42 then 0x1000 else 0)\<rparr>"

text \<open>
  The logical dimension as the specification words it, to compare with what \<open>GetLogicalSize\<close>
  returns: the floor of \<open>physical / s + 0.5\<close>.
\<close>

definition spec_floor_rounded :: "rat \<Rightarrow> LONG \<Rightarrow> rat" where
  "spec_floor_rounded s physical = of_int \<lfloor>of_int (sint physical) / s + 1 / 2\<rfloor>"

text \<open>
  \<open>rounded x y\<close>: \<open>y\<close> is \<open>x\<close> with a relative error of at most \<open>2 powi -24\<close>, the unit
  roundoff of a 24-bit significand.
\<close>

definition rounded :: "rat \<Rightarrow> rat \<Rightarrow> bool" where
  "rounded x y \<longleftrightarrow> \<bar>y - x\<bar> \<le> \<bar>x\<bar> / 2 ^ 24"

section \<open>Properties of the message handler\<close>

lemmas message_defs =
  WM_DESTROY_def WM_SIZE_def WM_NCCREATE_def WM_DPICHANGED_def WM_USER_def CM_UPDATE_TITLE_def

lemmas size_defs = SIZE_RESTORED_def SIZE_MINIMIZED_def SIZE_MAXIMIZED_def

subsection \<open>Resize events\<close>

text \<open>
  Claim C3. For a \<^verbatim>\<open>WM_SIZE\<close> message whose \<open>wparam\<close> is \<^verbatim>\<open>SIZE_RESTORED\<close> or
  \<^verbatim>\<open>SIZE_MAXIMIZED\<close>, \<open>MessageHandler\<close> calls \<open>OnResize\<close> exactly once, with the low word of
  \<open>lparam\<close> as width and the high word as height, whatever the minimized flag was; for
  \<^verbatim>\<open>SIZE_MINIMIZED\<close> it does not call \<open>OnResize\<close>.
\<close>

theorem MessageHandler_WM_SIZE_OnResize:
  "(wparam = SIZE_RESTORED \<or> wparam = SIZE_MAXIMIZED \<longrightarrow>
      filter is_OnResize (map snd (fst (snd (MessageHandler os w WM_SIZE wparam lparam))))
        = [OnResize (ucast (LOWORD lparam)) (ucast (HIWORD lparam))]) \<and>
   (wparam = SIZE_MINIMIZED \<longrightarrow>
      filter is_OnResize (map snd (fst (snd (MessageHandler os w WM_SIZE wparam lparam)))) = [])"
  by (auto simp add: MessageHandler_def MessageHandler_WM_SIZE_def message_defs size_defs Let_def)

theorem MessageHandler_WM_SIZE_OnResize_witness:
  "filter is_OnResize (map snd (fst (snd (MessageHandler (os_example 96 0)
       (BaseWindow_init\<lparr>m_minimized := True\<rparr>) WM_SIZE SIZE_MAXIMIZED 0x02580320))))
     = [OnResize 800 600] \<and>
   filter is_OnResize (map snd (fst (snd (MessageHandler (os_example 96 0)
       BaseWindow_init WM_SIZE SIZE_RESTORED 0x02580320))))
     = [OnResize 800 600] \<and>
   filter is_OnResize (map snd (fst (snd (MessageHandler (os_example 96 0)
       BaseWindow_init WM_SIZE SIZE_MINIMIZED 0x02580320))))
     = []"
  using
    MessageHandler_WM_SIZE_OnResize [of SIZE_MAXIMIZED "os_example 96 0"
      "BaseWindow_init\<lparr>m_minimized := True\<rparr>" "0x02580320"]
    MessageHandler_WM_SIZE_OnResize [of SIZE_RESTORED "os_example 96 0" BaseWindow_init "0x02580320"]
    MessageHandler_WM_SIZE_OnResize [of SIZE_MINIMIZED "os_example 96 0" BaseWindow_init "0x02580320"]
  by (simp add: LOWORD_def HIWORD_def size_defs)

subsection \<open>Minimize and restore\<close>







subsection \<open>Destroying the window\<close>

text \<open>
  Claim C7. On \<^verbatim>\<open>WM_DESTROY\<close>, \<open>MessageHandler\<close> calls \<open>PostQuitMessage\<close> with exit code 0
  and returns 0; it makes no other call, so the default window procedure is not invoked,
  and it leaves every field as it was.
\<close>

theorem MessageHandler_WM_DESTROY:
  "MessageHandler os w WM_DESTROY wparam lparam = (w, [(w, PostQuitMessage 0)], 0)"
  by (simp add: MessageHandler_def message_defs)

subsection \<open>A DPI change without a child window\<close>

text \<open>
  Claim C9. When the window has no child, \<open>HandleDpiChange\<close> only asks for the child: it does
  not call \<open>SetWindowPos\<close>, it leaves \<open>_currentDpi\<close> and every other field but
  \<open>_inDpiChange\<close> as they were, and it returns 0. The flag is true during the query and false at
  the end.
\<close>

theorem HandleDpiChange_no_child:
  "GetWindow_result os hWnd GW_CHILD = 0 \<Longrightarrow>
   HandleDpiChange os w hWnd wParam lParam =
     (w\<lparr>m_inDpiChange := False\<rparr>, [(w\<lparr>m_inDpiChange := True\<rparr>, GetWindow hWnd GW_CHILD)], 0)"
  by (simp add: HandleDpiChange_def)

theorem HandleDpiChange_no_child_witness:
  "GetWindow_result (os_example 120 0) 0x42 GW_CHILD = 0 \<and>
   HandleDpiChange (os_example 120 0) (BaseWindow_init\<lparr>m_window := 0x42, m_currentDpi := 96\<rparr>)
       0x42 0x00780078 0x1000 =
     (BaseWindow_init\<lparr>m_window := 0x42, m_currentDpi := 96\<rparr>,
      [(BaseWindow_init\<lparr>m_window := 0x42, m_currentDpi := 96, m_inDpiChange := True\<rparr>,
        GetWindow 0x42 GW_CHILD)], 0)"
proof -
  have no_child: "GetWindow_result (os_example 120 0) 0x42 GW_CHILD = 0"
    by (simp add: os_example_def)
  show ?thesis
    using no_child
      HandleDpiChange_no_child [OF no_child,
        of "BaseWindow_init\<lparr>m_window := 0x42, m_currentDpi := 96\<rparr>" "0x00780078" "0x1000"]
    by (simp add: BaseWindow_init_def)
qed

subsection \<open>The default window procedure\<close>

text \<open>
  Claim C5. For every message but \<^verbatim>\<open>WM_DPICHANGED\<close> and \<^verbatim>\<open>WM_DESTROY\<close>, the last call of
  \<open>MessageHandler\<close> is \<open>DefWindowProc\<close> on the window handle with the message, \<open>wparam\<close>
  and \<open>lparam\<close> it received, and its answer is what \<open>MessageHandler\<close> returns. When the user
  data of the window holds no instance pointer, \<open>WndProc\<close> does the same whenever it returns,
  with or without checked assertions; for a message other than \<^verbatim>\<open>WM_NCCREATE\<close> it does
  return, having changed nothing.
\<close>

theorem falls_back_to_DefWindowProc:
  "(message \<noteq> WM_DPICHANGED \<and> message \<noteq> WM_DESTROY \<longrightarrow>
      snd (snd (MessageHandler os w message wparam lparam))
        = DefWindowProc_result os (m_window w) message wparam lparam \<and>
      snd (last (fst (snd (MessageHandler os w message wparam lparam))))
        = DefWindowProc (m_window w) message wparam lparam) \<and>
   (GetThisFromHandle m window = 0 \<longrightarrow>
      (window \<noteq> 0 \<and> message \<noteq> WM_NCCREATE \<longrightarrow>
         WndProc debug os m window message wparam lparam =
           Inr (m, [(m, GetWindowLongPtr window GWLP_USERDATA),
                    (m, DefWindowProc window message wparam lparam)],
                DefWindowProc_result os window message wparam lparam)) \<and>
      (\<forall>m' tr r. WndProc debug os m window message wparam lparam = Inr (m', tr, r) \<longrightarrow>
         r = DefWindowProc_result os window message wparam lparam \<and>
         snd (last tr) = DefWindowProc window message wparam lparam))"
proof (intro conjI)
  show "message \<noteq> WM_DPICHANGED \<and> message \<noteq> WM_DESTROY \<longrightarrow>
      snd (snd (MessageHandler os w message wparam lparam))
        = DefWindowProc_result os (m_window w) message wparam lparam \<and>
      snd (last (fst (snd (MessageHandler os w message wparam lparam))))
        = DefWindowProc (m_window w) message wparam lparam"
    by (auto simp add: MessageHandler_def MessageHandler_WM_SIZE_def Let_def split_beta)
  show "GetThisFromHandle m window = 0 \<longrightarrow>
      (window \<noteq> 0 \<and> message \<noteq> WM_NCCREATE \<longrightarrow>
         WndProc debug os m window message wparam lparam =
           Inr (m, [(m, GetWindowLongPtr window GWLP_USERDATA),
                    (m, DefWindowProc window message wparam lparam)],
                DefWindowProc_result os window message wparam lparam)) \<and>
      (\<forall>m' tr r. WndProc debug os m window message wparam lparam = Inr (m', tr, r) \<longrightarrow>
         r = DefWindowProc_result os window message wparam lparam \<and>
         snd (last tr) = DefWindowProc window message wparam lparam)"
  proof (cases "WM_NCCREATE = message")
    case True
    then show ?thesis
      by (auto simp add: WndProc_def object_at_def Let_def split: option.splits if_splits)
  next
    case False
    then show ?thesis
      by (auto simp add: WndProc_def Let_def)
  qed
qed

theorem falls_back_to_DefWindowProc_witness:
  "WM_SIZE \<noteq> WM_DPICHANGED \<and> WM_SIZE \<noteq> WM_DESTROY \<and>
   MessageHandler (os_example 96 0) (BaseWindow_init\<lparr>m_window := 0x42\<rparr>)
       WM_SIZE SIZE_RESTORED 0x02580320
     = (BaseWindow_init\<lparr>m_window := 0x42\<rparr>,
        [(BaseWindow_init\<lparr>m_window := 0x42\<rparr>, OnResize 800 600),
         (BaseWindow_init\<lparr>m_window := 0x42\<rparr>,
          DefWindowProc 0x42 WM_SIZE SIZE_RESTORED 0x02580320)],
        DefWindowProc_result (os_example 96 0) 0x42 WM_SIZE SIZE_RESTORED 0x02580320) \<and>
   (0x42 :: HWND) \<noteq> 0 \<and> WM_SIZE \<noteq> WM_NCCREATE \<and>
   GetThisFromHandle \<lparr>objects = Map.empty, userdata = (\<lambda>window. 0)\<rparr> 0x42 = 0 \<and>
   WndProc True (os_example 96 0) \<lparr>objects = Map.empty, userdata = (\<lambda>window. 0)\<rparr>
       0x42 WM_SIZE SIZE_RESTORED 0x02580320
     = Inr (\<lparr>objects = Map.empty, userdata = (\<lambda>window. 0)\<rparr>,
            [(\<lparr>objects = Map.empty, userdata = (\<lambda>window. 0)\<rparr>,
              GetWindowLongPtr 0x42 GWLP_USERDATA),
             (\<lparr>objects = Map.empty, userdata = (\<lambda>window. 0)\<rparr>,
              DefWindowProc 0x42 WM_SIZE SIZE_RESTORED 0x02580320)],
            DefWindowProc_result (os_example 96 0) 0x42 WM_SIZE SIZE_RESTORED 0x02580320)"
proof -
  have msg: "WM_SIZE \<noteq> WM_DPICHANGED \<and> WM_SIZE \<noteq> WM_DESTROY"
    by (simp add: message_defs)
  have handler: "MessageHandler (os_example 96 0) (BaseWindow_init\<lparr>m_window := 0x42\<rparr>)
       WM_SIZE SIZE_RESTORED 0x02580320
     = (BaseWindow_init\<lparr>m_window := 0x42\<rparr>,
        [(BaseWindow_init\<lparr>m_window := 0x42\<rparr>, OnResize 800 600),
         (BaseWindow_init\<lparr>m_window := 0x42\<rparr>,
          DefWindowProc 0x42 WM_SIZE SIZE_RESTORED 0x02580320)],
        DefWindowProc_result (os_example 96 0) 0x42 WM_SIZE SIZE_RESTORED 0x02580320)"
    by (simp add: MessageHandler_def MessageHandler_WM_SIZE_def message_defs size_defs
        LOWORD_def HIWORD_def BaseWindow_init_def)
  have window: "(0x42 :: HWND) \<noteq> 0 \<and> WM_SIZE \<noteq> WM_NCCREATE"
    by (simp add: message_defs)
  have none: "GetThisFromHandle \<lparr>objects = Map.empty, userdata = (\<lambda>window. 0)\<rparr> 0x42 = 0"
    by (simp add: GetThisFromHandle_def)
  have "WndProc True (os_example 96 0) \<lparr>objects = Map.empty, userdata = (\<lambda>window. 0)\<rparr>
       0x42 WM_SIZE SIZE_RESTORED 0x02580320
     = Inr (\<lparr>objects = Map.empty, userdata = (\<lambda>window. 0)\<rparr>,
            [(\<lparr>objects = Map.empty, userdata = (\<lambda>window. 0)\<rparr>,
              GetWindowLongPtr 0x42 GWLP_USERDATA),
             (\<lparr>objects = Map.empty, userdata = (\<lambda>window. 0)\<rparr>,
              DefWindowProc 0x42 WM_SIZE SIZE_RESTORED 0x02580320)],
            DefWindowProc_result (os_example 96 0) 0x42 WM_SIZE SIZE_RESTORED 0x02580320)"
    using window none
      falls_back_to_DefWindowProc [where message = WM_SIZE and os = "os_example 96 0"
        and w = "BaseWindow_init\<lparr>m_window := 0x42\<rparr>" and wparam = SIZE_RESTORED
        and lparam = "0x02580320" and window = "0x42" and debug = True
        and m = "\<lparr>objects = Map.empty, userdata = (\<lambda>window. 0)\<rparr>"]
    by blast
  with msg handler window none show ?thesis by blast
qed

subsection \<open>Creating the window\<close>

text \<open>
  Claim C6, as the code has it. On \<^verbatim>\<open>WM_NCCREATE\<close>, in a build that checks \<^verbatim>\<open>WINRT_ASSERT\<close>,
  \<open>WndProc\<close> fails an assertion when the instance pointer in \<^verbatim>\<open>lpCreateParams\<close> is null and
  when the instance already has a window handle, and it returns only when the window and the
  pointer are not null and the instance has no handle yet. In every build, when
  \<^verbatim>\<open>lpCreateParams\<close> points to an instance and no assertion is checked and false, the call
  returns: the instance owns the handle and caches the DPI of the window, the user data of the
  window holds the instance pointer, and the calls are \<open>DestroyWindow\<close> on a handle the
  instance had before, then \<open>SetWindowLongPtr\<close>, \<open>EnableNonClientDpiScaling\<close>,
  \<open>GetDpiForWindow\<close> and \<open>DefWindowProc\<close>. In a build that does not check \<^verbatim>\<open>WINRT_ASSERT\<close>
  this happens also when the instance already has a handle, and a null \<^verbatim>\<open>lpCreateParams\<close> is
  the use of a null pointer.
\<close>

theorem WndProc_WM_NCCREATE:
  "(debug \<longrightarrow>
      (lpCreateParams_at os lparam = Some 0 \<longrightarrow>
         WndProc debug os m window WM_NCCREATE wparam lparam = Inl AssertFailed) \<and>
      (\<forall>that t. lpCreateParams_at os lparam = Some that \<and> objects m that = Some t \<and>
                m_window t \<noteq> 0 \<longrightarrow>
         WndProc debug os m window WM_NCCREATE wparam lparam = Inl AssertFailed) \<and>
      (\<forall>m' tr r. WndProc debug os m window WM_NCCREATE wparam lparam = Inr (m', tr, r) \<longrightarrow>
         window \<noteq> 0 \<and>
         (\<exists>that t. lpCreateParams_at os lparam = Some that \<and> that \<noteq> 0 \<and>
                   objects m that = Some t \<and> m_window t = 0))) \<and>
   (\<forall>that t. lpCreateParams_at os lparam = Some that \<and> that \<noteq> 0 \<and> objects m that = Some t \<and>
             (debug \<longrightarrow> window \<noteq> 0 \<and> m_window t = 0) \<longrightarrow>
      (\<exists>m' tr. WndProc debug os m window WM_NCCREATE wparam lparam
         = Inr (m', tr, DefWindowProc_result os window WM_NCCREATE wparam lparam) \<and>
         objects m' = (objects m)(that \<mapsto>
            t\<lparr>m_window := window, m_currentDpi := GetDpiForWindow_result os window\<rparr>) \<and>
         userdata m' = (if window = 0 then userdata m else (userdata m)(window := that)) \<and>
         map snd tr =
           (if m_window t \<noteq> 0 then [DestroyWindow (m_window t)] else []) @
           [SetWindowLongPtr window GWLP_USERDATA that,
            EnableNonClientDpiScaling window, GetDpiForWindow window,
            DefWindowProc window WM_NCCREATE wparam lparam])) \<and>
   (\<not> debug \<and> lpCreateParams_at os lparam = Some 0 \<longrightarrow>
      WndProc debug os m window WM_NCCREATE wparam lparam = Inl AccessViolation)"
proof (intro conjI)
  show "debug \<longrightarrow>
      (lpCreateParams_at os lparam = Some 0 \<longrightarrow>
         WndProc debug os m window WM_NCCREATE wparam lparam = Inl AssertFailed) \<and>
      (\<forall>that t. lpCreateParams_at os lparam = Some that \<and> objects m that = Some t \<and>
                m_window t \<noteq> 0 \<longrightarrow>
         WndProc debug os m window WM_NCCREATE wparam lparam = Inl AssertFailed) \<and>
      (\<forall>m' tr r. WndProc debug os m window WM_NCCREATE wparam lparam = Inr (m', tr, r) \<longrightarrow>
         window \<noteq> 0 \<and>
         (\<exists>that t. lpCreateParams_at os lparam = Some that \<and> that \<noteq> 0 \<and>
                   objects m that = Some t \<and> m_window t = 0))"
    by (auto simp add: WndProc_def object_at_def Let_def split: option.splits if_splits)
  show "\<forall>that t. lpCreateParams_at os lparam = Some that \<and> that \<noteq> 0 \<and> objects m that = Some t \<and>
             (debug \<longrightarrow> window \<noteq> 0 \<and> m_window t = 0) \<longrightarrow>
      (\<exists>m' tr. WndProc debug os m window WM_NCCREATE wparam lparam
         = Inr (m', tr, DefWindowProc_result os window WM_NCCREATE wparam lparam) \<and>
         objects m' = (objects m)(that \<mapsto>
            t\<lparr>m_window := window, m_currentDpi := GetDpiForWindow_result os window\<rparr>) \<and>
         userdata m' = (if window = 0 then userdata m else (userdata m)(window := that)) \<and>
         map snd tr =
           (if m_window t \<noteq> 0 then [DestroyWindow (m_window t)] else []) @
           [SetWindowLongPtr window GWLP_USERDATA that,
            EnableNonClientDpiScaling window, GetDpiForWindow window,
            DefWindowProc window WM_NCCREATE wparam lparam])"
    by (auto simp add: WndProc_def object_at_def at_object_def Let_def)
  show "\<not> debug \<and> lpCreateParams_at os lparam = Some 0 \<longrightarrow>
      WndProc debug os m window WM_NCCREATE wparam lparam = Inl AccessViolation"
    by (simp add: WndProc_def object_at_def)
qed

theorem WndProc_WM_NCCREATE_witness:
  "lpCreateParams_at (os_example 144 0) 0x2000 = Some 0 \<and>
   WndProc True (os_example 144 0) (machine_example BaseWindow_init) 0x42 WM_NCCREATE 0 0x2000
     = Inl AssertFailed \<and>
   WndProc False (os_example 144 0) (machine_example BaseWindow_init) 0x42 WM_NCCREATE 0 0x2000
     = Inl AccessViolation \<and>
   lpCreateParams_at (os_example 144 0) 0x1000 = Some 0x1000 \<and>
   objects (machine_example (BaseWindow_init\<lparr>m_window := 0x77\<rparr>)) 0x1000
     = Some (BaseWindow_init\<lparr>m_window := 0x77\<rparr>) \<and>
   WndProc True (os_example 144 0) (machine_example (BaseWindow_init\<lparr>m_window := 0x77\<rparr>))
       0x42 WM_NCCREATE 0 0x1000
     = Inl AssertFailed \<and>
   objects (machine_example BaseWindow_init) 0x1000 = Some BaseWindow_init \<and>
   \<not> isl (WndProc True (os_example 144 0) (machine_example BaseWindow_init)
            0x42 WM_NCCREATE 0 0x1000) \<and>
   objects (fst (projr (WndProc True (os_example 144 0) (machine_example BaseWindow_init)
            0x42 WM_NCCREATE 0 0x1000))) 0x1000
     = Some (BaseWindow_init\<lparr>m_window := 0x42, m_currentDpi := 144\<rparr>) \<and>
   userdata (fst (projr (WndProc True (os_example 144 0) (machine_example BaseWindow_init)
            0x42 WM_NCCREATE 0 0x1000))) 0x42
     = 0x1000 \<and>
   map snd (fst (snd (projr (WndProc True (os_example 144 0) (machine_example BaseWindow_init)
            0x42 WM_NCCREATE 0 0x1000))))
     = [SetWindowLongPtr 0x42 GWLP_USERDATA 0x1000, EnableNonClientDpiScaling 0x42,
        GetDpiForWindow 0x42, DefWindowProc 0x42 WM_NCCREATE 0 0x1000]"
proof -
  have null: "lpCreateParams_at (os_example 144 0) 0x2000 = Some 0"
    and inst: "lpCreateParams_at (os_example 144 0) 0x1000 = Some 0x1000"
    by (simp_all add: os_example_def)
  have owned: "objects (machine_example (BaseWindow_init\<lparr>m_window := 0x77\<rparr>)) 0x1000
      = Some (BaseWindow_init\<lparr>m_window := 0x77\<rparr>)"
    and fresh: "objects (machine_example BaseWindow_init) 0x1000 = Some BaseWindow_init"
    by (simp_all add: machine_example_def)
  have handle: "m_window (BaseWindow_init\<lparr>m_window := 0x77\<rparr>) \<noteq> 0"
    "m_window BaseWindow_init = 0"
    by (simp_all add: BaseWindow_init_def)
  have a: "WndProc True (os_example 144 0) (machine_example BaseWindow_init)
      0x42 WM_NCCREATE 0 0x2000 = Inl AssertFailed"
    using null
      WndProc_WM_NCCREATE [where debug = True and os = "os_example 144 0" and lparam = "0x2000"
        and m = "machine_example BaseWindow_init" and window = "0x42" and wparam = 0]
    by blast
  have b: "WndProc False (os_example 144 0) (machine_example BaseWindow_init)
      0x42 WM_NCCREATE 0 0x2000 = Inl AccessViolation"
    using null
      WndProc_WM_NCCREATE [where debug = False and os = "os_example 144 0" and lparam = "0x2000"
        and m = "machine_example BaseWindow_init" and window = "0x42" and wparam = 0]
    by blast
  have c: "WndProc True (os_example 144 0) (machine_example (BaseWindow_init\<lparr>m_window := 0x77\<rparr>))
      0x42 WM_NCCREATE 0 0x1000 = Inl AssertFailed"
    using inst owned handle(1)
      WndProc_WM_NCCREATE [where debug = True and os = "os_example 144 0" and lparam = "0x1000"
        and m = "machine_example (BaseWindow_init\<lparr>m_window := 0x77\<rparr>)" and window = "0x42"
        and wparam = 0]
    by blast
  have d: "\<not> isl (WndProc True (os_example 144 0) (machine_example BaseWindow_init)
            0x42 WM_NCCREATE 0 0x1000) \<and>
      objects (fst (projr (WndProc True (os_example 144 0) (machine_example BaseWindow_init)
            0x42 WM_NCCREATE 0 0x1000))) 0x1000
        = Some (BaseWindow_init\<lparr>m_window := 0x42, m_currentDpi := 144\<rparr>) \<and>
      userdata (fst (projr (WndProc True (os_example 144 0) (machine_example BaseWindow_init)
            0x42 WM_NCCREATE 0 0x1000))) 0x42
        = 0x1000 \<and>
      map snd (fst (snd (projr (WndProc True (os_example 144 0) (machine_example BaseWindow_init)
            0x42 WM_NCCREATE 0 0x1000))))
        = [SetWindowLongPtr 0x42 GWLP_USERDATA 0x1000, EnableNonClientDpiScaling 0x42,
           GetDpiForWindow 0x42, DefWindowProc 0x42 WM_NCCREATE 0 0x1000]"
    by (simp add: WndProc_def object_at_def machine_example_def os_example_def BaseWindow_init_def
        at_object_def Let_def message_defs)
  from null a b inst owned c fresh d show ?thesis by blast
qed

text \<open>
  A build that does not check \<^verbatim>\<open>WINRT_ASSERT\<close>, and an instance that already owns the window
  \<open>0x77\<close>: \<open>WndProc\<close> fails no assertion and the instance takes ownership of the window
  \<open>0x42\<close>, after \<open>DestroyWindow\<close> on the one it had.
\<close>

theorem WndProc_WM_NCCREATE_unchecked:
  "m_window (BaseWindow_init\<lparr>m_window := 0x77\<rparr>) \<noteq> 0 \<and>
   \<not> isl (WndProc False (os_example 144 0) (machine_example (BaseWindow_init\<lparr>m_window := 0x77\<rparr>))
            0x42 WM_NCCREATE 0 0x1000) \<and>
   objects (fst (projr (WndProc False (os_example 144 0)
            (machine_example (BaseWindow_init\<lparr>m_window := 0x77\<rparr>)) 0x42 WM_NCCREATE 0 0x1000)))
       0x1000
     = Some (BaseWindow_init\<lparr>m_window := 0x42, m_currentDpi := 144\<rparr>) \<and>
   userdata (fst (projr (WndProc False (os_example 144 0)
            (machine_example (BaseWindow_init\<lparr>m_window := 0x77\<rparr>)) 0x42 WM_NCCREATE 0 0x1000)))
       0x42
     = 0x1000 \<and>
   map snd (fst (snd (projr (WndProc False (os_example 144 0)
            (machine_example (BaseWindow_init\<lparr>m_window := 0x77\<rparr>)) 0x42 WM_NCCREATE 0 0x1000))))
     = [DestroyWindow 0x77, SetWindowLongPtr 0x42 GWLP_USERDATA 0x1000,
        EnableNonClientDpiScaling 0x42, GetDpiForWindow 0x42,
        DefWindowProc 0x42 WM_NCCREATE 0 0x1000]"
  by (simp add: WndProc_def object_at_def machine_example_def os_example_def BaseWindow_init_def
      at_object_def Let_def message_defs)

subsection \<open>The window title\<close>

text \<open>
  Claim C8, as the code has it. \<open>UpdateTitle t\<close> stores \<open>t\<close> in \<open>_title\<close>, changes no other
  field and posts \<^verbatim>\<open>CM_UPDATE_TITLE\<close> to the window. On \<^verbatim>\<open>CM_UPDATE_TITLE\<close>,
  \<open>MessageHandler\<close> calls \<open>SetWindowTextW\<close> with the characters of \<open>_title\<close> up to its first
  null character, which is all of \<open>_title\<close> when it holds no null character.
\<close>

theorem UpdateTitle_sets_window_text:
  "UpdateTitle w t =
     (w\<lparr>m_title := t\<rparr>, [(w\<lparr>m_title := t\<rparr>, PostMessageW (m_window w) CM_UPDATE_TITLE 0 0)]) \<and>
   MessageHandler os w CM_UPDATE_TITLE wparam lparam =
     (w, [(w, SetWindowTextW (m_window w) (takeWhile (\<lambda>c. c \<noteq> 0) (m_title w))),
          (w, DefWindowProc (m_window w) CM_UPDATE_TITLE wparam lparam)],
      DefWindowProc_result os (m_window w) CM_UPDATE_TITLE wparam lparam) \<and>
   (0 \<notin> set (m_title w) \<longrightarrow> takeWhile (\<lambda>c. c \<noteq> 0) (m_title w) = m_title w)"
  by (auto simp add: UpdateTitle_def MessageHandler_def c_str_def message_defs Let_def)

theorem UpdateTitle_sets_window_text_witness:
  "UpdateTitle (BaseWindow_init\<lparr>m_window := 0x42\<rparr>) [0x61, 0x62]
     = (BaseWindow_init\<lparr>m_window := 0x42, m_title := [0x61, 0x62]\<rparr>,
        [(BaseWindow_init\<lparr>m_window := 0x42, m_title := [0x61, 0x62]\<rparr>,
          PostMessageW 0x42 CM_UPDATE_TITLE 0 0)]) \<and>
   0 \<notin> set (m_title (BaseWindow_init\<lparr>m_window := 0x42, m_title := [0x61, 0x62]\<rparr>)) \<and>
   MessageHandler (os_example 96 0) (BaseWindow_init\<lparr>m_window := 0x42, m_title := [0x61, 0x62]\<rparr>)
       CM_UPDATE_TITLE 0 0
     = (BaseWindow_init\<lparr>m_window := 0x42, m_title := [0x61, 0x62]\<rparr>,
        [(BaseWindow_init\<lparr>m_window := 0x42, m_title := [0x61, 0x62]\<rparr>,
          SetWindowTextW 0x42 [0x61, 0x62]),
         (BaseWindow_init\<lparr>m_window := 0x42, m_title := [0x61, 0x62]\<rparr>,
          DefWindowProc 0x42 CM_UPDATE_TITLE 0 0)], 0)"
  using
    UpdateTitle_sets_window_text [of "BaseWindow_init\<lparr>m_window := 0x42\<rparr>" "[0x61, 0x62]"
      "os_example 96 0" 0 0]
    UpdateTitle_sets_window_text [of "BaseWindow_init\<lparr>m_window := 0x42, m_title := [0x61, 0x62]\<rparr>"
      "[0x61, 0x62]" "os_example 96 0" 0 0]
  by (simp add: BaseWindow_init_def os_example_def)

text \<open>
  A title with a null character inside: \<open>UpdateTitle\<close> stores all three characters, and the
  window text that \<open>MessageHandler\<close> sets is the first character only.
\<close>

theorem UpdateTitle_embedded_null:
  "m_title (fst (UpdateTitle (BaseWindow_init\<lparr>m_window := 0x42\<rparr>) [0x61, 0, 0x62]))
     = [0x61, 0, 0x62] \<and>
   map snd (fst (snd (MessageHandler (os_example 96 0)
       (fst (UpdateTitle (BaseWindow_init\<lparr>m_window := 0x42\<rparr>) [0x61, 0, 0x62]))
       CM_UPDATE_TITLE 0 0)))
     = [SetWindowTextW 0x42 [0x61], DefWindowProc 0x42 CM_UPDATE_TITLE 0 0] \<and>
   SetWindowTextW 0x42 [0x61]
     \<noteq> SetWindowTextW 0x42
         (m_title (fst (UpdateTitle (BaseWindow_init\<lparr>m_window := 0x42\<rparr>) [0x61, 0, 0x62])))"
  by (simp add: UpdateTitle_def MessageHandler_def BaseWindow_init_def c_str_def message_defs
      Let_def)

subsection \<open>The flag of a DPI change in progress\<close>

text \<open>
  Claim C10. \<open>HandleDpiChange\<close> returns 0; every call it makes sees \<open>_inDpiChange\<close> true, and
  the flag is false when it returns. A call of \<open>MessageHandler\<close> or of \<open>UpdateTitle\<close> on an
  object whose flag is false leaves it false, and a call of \<open>WndProc\<close> that returns keeps the
  flag false in every object of a state where it was false in every object, with or without
  checked assertions. The other public
  member functions are \<^verbatim>\<open>const\<close>: they return a value and no new object.
\<close>

theorem inDpiChange_false_outside:
  "snd (snd (HandleDpiChange os w hWnd wParam lParam)) = 0 \<and>
   (\<forall>(s, e) \<in> set (fst (snd (HandleDpiChange os w hWnd wParam lParam))). m_inDpiChange s) \<and>
   \<not> m_inDpiChange (fst (HandleDpiChange os w hWnd wParam lParam)) \<and>
   (\<not> m_inDpiChange w \<longrightarrow> \<not> m_inDpiChange (fst (MessageHandler os w message wparam lparam))) \<and>
   (\<not> m_inDpiChange w \<longrightarrow> \<not> m_inDpiChange (fst (UpdateTitle w newTitle))) \<and>
   ((\<forall>p t. objects m p = Some t \<longrightarrow> \<not> m_inDpiChange t) \<longrightarrow>
    (\<forall>m' tr r. WndProc debug os m window message wparam lparam = Inr (m', tr, r) \<longrightarrow>
       (\<forall>p t. objects m' p = Some t \<longrightarrow> \<not> m_inDpiChange t)))"
proof (intro conjI)
  show "snd (snd (HandleDpiChange os w hWnd wParam lParam)) = 0"
    by (simp add: HandleDpiChange_def Let_def)
  show "\<forall>(s, e) \<in> set (fst (snd (HandleDpiChange os w hWnd wParam lParam))). m_inDpiChange s"
    by (simp add: HandleDpiChange_def Let_def)
  show "\<not> m_inDpiChange (fst (HandleDpiChange os w hWnd wParam lParam))"
    by (simp add: HandleDpiChange_def Let_def)
  show handler: "\<not> m_inDpiChange w \<longrightarrow>
      \<not> m_inDpiChange (fst (MessageHandler os w message wparam lparam))" for w
    by (simp add: MessageHandler_def MessageHandler_WM_SIZE_def HandleDpiChange_def Let_def)
  show "\<not> m_inDpiChange w \<longrightarrow> \<not> m_inDpiChange (fst (UpdateTitle w newTitle))"
    by (simp add: UpdateTitle_def Let_def)
  show "(\<forall>p t. objects m p = Some t \<longrightarrow> \<not> m_inDpiChange t) \<longrightarrow>
    (\<forall>m' tr r. WndProc debug os m window message wparam lparam = Inr (m', tr, r) \<longrightarrow>
       (\<forall>p t. objects m' p = Some t \<longrightarrow> \<not> m_inDpiChange t))"
    using handler
    by (auto simp add: WndProc_def at_object_def object_at_def Let_def split_beta
        split: option.splits if_splits)
qed

theorem inDpiChange_false_outside_witness:
  "HandleDpiChange (os_example 96 0x99) (BaseWindow_init\<lparr>m_window := 0x42\<rparr>)
       0x42 0x00780078 0x1000
     = (BaseWindow_init\<lparr>m_window := 0x42, m_currentDpi := 120\<rparr>,
        [(BaseWindow_init\<lparr>m_window := 0x42, m_inDpiChange := True\<rparr>, GetWindow 0x42 GW_CHILD),
         (BaseWindow_init\<lparr>m_window := 0x42, m_inDpiChange := True\<rparr>,
          SetWindowPos 0x42 0 10 10 800 600 0x14)], 0) \<and>
   \<not> m_inDpiChange (BaseWindow_init\<lparr>m_window := 0x42\<rparr>) \<and>
   \<not> m_inDpiChange (fst (MessageHandler (os_example 96 0x99) (BaseWindow_init\<lparr>m_window := 0x42\<rparr>)
        WM_DPICHANGED 0x00780078 0x1000)) \<and>
   \<not> m_inDpiChange (fst (UpdateTitle (BaseWindow_init\<lparr>m_window := 0x42\<rparr>) [0x61])) \<and>
   (case WndProc True (os_example 96 0x99) (machine_example (BaseWindow_init\<lparr>m_window := 0x42\<rparr>))
           0x42 WM_DPICHANGED 0x00780078 0x1000 of
      Inl e \<Rightarrow> False
    | Inr (m', tr, r) \<Rightarrow>
        objects m' = [0x1000 \<mapsto> BaseWindow_init\<lparr>m_window := 0x42, m_currentDpi := 120\<rparr>] \<and>
        r = 0)"
  using inDpiChange_false_outside [where os = "os_example 96 0x99"
      and w = "BaseWindow_init\<lparr>m_window := 0x42\<rparr>" and hWnd = "0x42" and wParam = "0x00780078"
      and lParam = "0x1000" and message = WM_DPICHANGED and wparam = "0x00780078"
      and lparam = "0x1000" and newTitle = "[0x61]"
      and m = "machine_example (BaseWindow_init\<lparr>m_window := 0x42\<rparr>)" and window = "0x42"
      and debug = True]
  by (simp add: HandleDpiChange_def MessageHandler_def UpdateTitle_def WndProc_def
      machine_example_def os_example_def BaseWindow_init_def at_object_def object_at_def
      GetThisFromHandle_def HIWORD_def SWP_NOZORDER_def SWP_NOACTIVATE_def message_defs Let_def)

section \<open>Rounding to single precision\<close>

text \<open>
  The exponent that \<open>ilog2\<close> finds brackets its argument, so \<open>round_float\<close> has a relative
  error of at most \<open>2 powi -24\<close> on the normal range, returns a number with at most 24
  significant bits unchanged, and returns multiples of \<open>2 powi -149\<close> only.
\<close>

lemma bitlen_pos: "0 < n \<Longrightarrow> 0 < bitlen n"
  using bitlen_nonneg [of n] bitlen_eq_zero_iff [of n] by linarith

lemma rat_of_int_le_power2: "(n::int) \<le> 2 ^ k \<Longrightarrow> (of_int n :: rat) \<le> 2 ^ k"
  by simp

lemma rat_power2_le_of_int: "2 ^ k \<le> (n::int) \<Longrightarrow> (2::rat) ^ k \<le> of_int n"
  by simp

lemma ilog2_le:
  assumes "0 < x"
  shows "2 powi (ilog2 x) \<le> x"
proof (cases "1 \<le> x")
  case True
  define n where "n = \<lfloor>x\<rfloor>"
  have n: "0 < n" using True by (simp add: n_def)
  have b: "0 < bitlen n" using n by (rule bitlen_pos)
  have "(2::int) ^ nat (bitlen n - 1) \<le> n"
    using bitlen_bounds [OF n] by simp
  then have "(2::rat) ^ nat (bitlen n - 1) \<le> of_int n"
    by (rule rat_power2_le_of_int)
  also have "\<dots> \<le> x" unfolding n_def by linarith
  finally have "(2::rat) ^ nat (bitlen n - 1) \<le> x" .
  then show ?thesis
    using True b by (simp add: ilog2_def n_def power_int_nonneg_exp)
next
  case False
  define c where "c = \<lceil>1 / x\<rceil>"
  have y: "1 < 1 / x" using False assms by simp
  have c: "0 < c - 1" using y by (simp add: c_def less_ceiling_iff)
  have b: "0 < bitlen (c - 1)" using c by (rule bitlen_pos)
  have "c - 1 < 2 ^ nat (bitlen (c - 1))"
    using bitlen_bounds [OF c] by simp
  then have "c \<le> 2 ^ nat (bitlen (c - 1))" by simp
  then have "(of_int c :: rat) \<le> 2 ^ nat (bitlen (c - 1))"
    by (rule rat_of_int_le_power2)
  moreover have "1 / x \<le> of_int c" unfolding c_def by linarith
  ultimately have "1 / x \<le> 2 ^ nat (bitlen (c - 1))" by linarith
  then have "1 / 2 ^ nat (bitlen (c - 1)) \<le> x"
    using assms by (simp add: field_simps)
  then show ?thesis
    using False b by (simp add: ilog2_def c_def power_int_minus_divide power_int_nonneg_exp)
qed

lemma ilog2_gt:
  assumes "0 < x"
  shows "x < 2 powi (ilog2 x + 1)"
proof (cases "1 \<le> x")
  case True
  define n where "n = \<lfloor>x\<rfloor>"
  have n: "0 < n" using True by (simp add: n_def)
  have b: "0 < bitlen n" using n by (rule bitlen_pos)
  have "n < 2 ^ nat (bitlen n)"
    using bitlen_bounds [OF n] by simp
  then have "n + 1 \<le> 2 ^ nat (bitlen n)" by simp
  then have "(of_int (n + 1) :: rat) \<le> 2 ^ nat (bitlen n)"
    by (rule rat_of_int_le_power2)
  moreover have "x < of_int (n + 1)" unfolding n_def by linarith
  ultimately have "x < 2 ^ nat (bitlen n)" by linarith
  then show ?thesis
    using True b by (simp add: ilog2_def n_def power_int_nonneg_exp)
next
  case False
  define c where "c = \<lceil>1 / x\<rceil>"
  have y: "1 < 1 / x" using False assms by simp
  have c: "0 < c - 1" using y by (simp add: c_def less_ceiling_iff)
  have b: "0 < bitlen (c - 1)" using c by (rule bitlen_pos)
  have "2 ^ nat (bitlen (c - 1) - 1) \<le> c - 1"
    using bitlen_bounds [OF c] by simp
  then have "(2::rat) ^ nat (bitlen (c - 1) - 1) \<le> of_int (c - 1)"
    by (rule rat_power2_le_of_int)
  moreover have "of_int (c - 1) < 1 / x"
    unfolding c_def by linarith
  ultimately have "2 ^ nat (bitlen (c - 1) - 1) < 1 / x" by linarith
  then have "x < 1 / 2 ^ nat (bitlen (c - 1) - 1)"
    using assms by (simp add: field_simps)
  moreover have "(2::rat) powi (- bitlen (c - 1) + 1) = 1 / 2 ^ nat (bitlen (c - 1) - 1)"
  proof -
    have "- bitlen (c - 1) + 1 = - (bitlen (c - 1) - 1)" by simp
    then have "(2::rat) powi (- bitlen (c - 1) + 1) = 1 / 2 powi (bitlen (c - 1) - 1)"
      by (simp only: power_int_minus_divide)
    then show ?thesis using b by (simp add: power_int_nonneg_exp)
  qed
  ultimately show ?thesis
    using False by (simp add: ilog2_def c_def)
qed

lemma round_ties_even_error: "\<bar>of_int (round_ties_even y) - y\<bar> \<le> 1 / 2"
proof -
  have "of_int \<lfloor>y\<rfloor> \<le> y" "y < of_int \<lfloor>y\<rfloor> + 1" by linarith+
  then show ?thesis
    by (auto simp add: round_ties_even_def Let_def abs_le_iff)
qed

lemma round_ties_even_of_int: "round_ties_even (of_int n) = n"
  by (simp add: round_ties_even_def Let_def)

lemma power2_int_less_imp: "(2::rat) powi a < 2 powi b \<Longrightarrow> a < b"
proof (rule ccontr)
  assume lt: "(2::rat) powi a < 2 powi b" and "\<not> a < b"
  then have "b \<le> a" by simp
  then have "(2::rat) powi b \<le> 2 powi a" by (rule power_int_increasing) simp
  with lt show False by simp
qed

lemma round_float_nonzero:
  fixes x :: rat
  assumes "x \<noteq> 0"
  shows "round_float x =
     (if (2::rat) ^ 128 \<le> \<bar>of_int (round_ties_even (x / 2 powi (max (ilog2 \<bar>x\<bar>) (- 126) - 23)))
                      * 2 powi (max (ilog2 \<bar>x\<bar>) (- 126) - 23)\<bar>
      then (if 0 < x then PInf else NInf)
      else Finite (of_int (round_ties_even (x / 2 powi (max (ilog2 \<bar>x\<bar>) (- 126) - 23)))
                      * 2 powi (max (ilog2 \<bar>x\<bar>) (- 126) - 23)))"
  using assms by (simp only: round_float_def Let_def if_False)

lemma round_float_rel:
  assumes lo: "2 powi (- 126) \<le> \<bar>x\<bar>" and hi: "\<bar>x\<bar> \<le> 2 ^ 127"
  shows "\<exists>d. \<bar>d\<bar> \<le> 1 / 2 ^ 24 \<and> round_float x = Finite (x * (1 + d))"
proof -
  have pos: "0 < \<bar>x\<bar>"
  proof -
    have "(0::rat) < 2 powi (- 126)" by simp
    with lo show ?thesis by linarith
  qed
  then have x0: "x \<noteq> 0" by simp
  define e where "e = ilog2 \<bar>x\<bar>"
  have e_le: "2 powi e \<le> \<bar>x\<bar>" unfolding e_def using pos by (rule ilog2_le)
  have "\<bar>x\<bar> < 2 powi (e + 1)" unfolding e_def using pos by (rule ilog2_gt)
  with lo have "(2::rat) powi (- 126) < 2 powi (e + 1)" by linarith
  then have "- 126 < e + 1" by (rule power2_int_less_imp)
  then have emax: "max e (- 126) = e" by simp
  define q :: rat where "q = 2 powi (e - 23)"
  have q0: "0 < q" by (simp add: q_def)
  have q_eq: "q = 2 powi e / 2 ^ 23"
    by (simp add: q_def power_int_diff)
  define r where "r = of_int (round_ties_even (x / q)) * q"
  have "\<bar>r - x\<bar> = \<bar>of_int (round_ties_even (x / q)) - x / q\<bar> * q"
  proof -
    have "r - x = (of_int (round_ties_even (x / q)) - x / q) * q"
      using q0 by (simp add: r_def field_simps)
    then show ?thesis using q0 by (simp add: abs_mult)
  qed
  also have "\<dots> \<le> (1 / 2) * q"
    using round_ties_even_error [of "x / q"] q0 by (intro mult_right_mono) simp_all
  also have "\<dots> \<le> \<bar>x\<bar> / 2 ^ 24"
    using e_le by (simp add: q_eq)
  finally have err: "\<bar>r - x\<bar> \<le> \<bar>x\<bar> / 2 ^ 24" .
  define d where "d = (r - x) / x"
  have d: "\<bar>d\<bar> \<le> 1 / 2 ^ 24"
  proof -
    have "\<bar>d\<bar> = \<bar>r - x\<bar> / \<bar>x\<bar>" by (simp add: d_def)
    also have "\<dots> \<le> (\<bar>x\<bar> / 2 ^ 24) / \<bar>x\<bar>"
      using err pos by (intro divide_right_mono) simp_all
    also have "\<dots> = 1 / 2 ^ 24" using pos by simp
    finally show ?thesis .
  qed
  have r: "r = x * (1 + d)" using x0 by (simp add: d_def field_simps)
  have "\<bar>r\<bar> \<le> \<bar>x\<bar> + \<bar>r - x\<bar>" by linarith
  also have "\<dots> \<le> \<bar>x\<bar> + \<bar>x\<bar> / 2 ^ 24" using err by simp
  also have "\<dots> \<le> 2 ^ 127 + 2 ^ 127 / 2 ^ 24" using hi by (intro add_mono divide_right_mono) simp_all
  also have "\<dots> < 2 ^ 128" by simp
  finally have fin: "\<not> (2::rat) ^ 128 \<le> \<bar>r\<bar>" by simp
  have "round_float x = Finite r"
    unfolding round_float_nonzero [OF x0] e_def [symmetric] emax q_def [symmetric] r_def [symmetric]
    using fin by (simp only: if_False)
  with d r show ?thesis by blast
qed

lemma round_float_exact:
  fixes x :: rat
  assumes x: "x = of_int n * 2 powi k" and n: "\<bar>n\<bar> < 2 ^ 24" and k: "- 149 \<le> k"
    and fin: "\<bar>x\<bar> < 2 ^ 128"
  shows "round_float x = Finite x"
proof (cases "x = 0")
  case True
  then show ?thesis by (simp add: round_float_def)
next
  case False
  then have pos: "0 < \<bar>x\<bar>" by simp
  define e where "e = max (ilog2 \<bar>x\<bar>) (- 126)"
  have "2 powi (ilog2 \<bar>x\<bar>) \<le> \<bar>x\<bar>" using pos by (rule ilog2_le)
  also have "\<bar>x\<bar> = of_int \<bar>n\<bar> * 2 powi k" by (simp add: x abs_mult)
  also have "\<dots> < 2 ^ 24 * 2 powi k"
  proof -
    have "(of_int \<bar>n\<bar> :: rat) < 2 ^ 24" using n by (simp flip: of_int_abs)
    then show ?thesis by (intro mult_strict_right_mono) simp_all
  qed
  also have "\<dots> = 2 powi (k + 24)" by (simp add: power_int_add)
  finally have "ilog2 \<bar>x\<bar> < k + 24" by (rule power2_int_less_imp)
  with k have e: "e \<le> k + 23" by (simp add: e_def)
  define j where "j = nat (k + 23 - e)"
  have kj: "k = (e - 23) + int j" using e by (simp add: j_def)
  have "x / 2 powi (e - 23) = of_int n * 2 powi (int j)"
    by (simp add: x kj power_int_add del: power_int_of_nat)
  then have int: "x / 2 powi (e - 23) = of_int (n * 2 ^ j)" by simp
  have r: "of_int (round_ties_even (x / 2 powi (e - 23))) * 2 powi (e - 23) = x"
    unfolding int round_ties_even_of_int unfolding int [symmetric] by simp
  have "\<not> (2::rat) ^ 128 \<le> \<bar>x\<bar>" using fin by simp
  then show ?thesis
    unfolding round_float_nonzero [OF False] e_def [symmetric] r
    by (simp only: if_False)
qed

lemma round_float_grid:
  assumes "round_float x = Finite v"
  shows "\<exists>m. v = of_int m * 2 powi (- 149)"
proof (cases "x = 0")
  case True
  with assms have "v = 0" by (simp add: round_float_def)
  then have "v = of_int 0 * 2 powi (- 149)" by simp
  then show ?thesis by blast
next
  case False
  define e where "e = max (ilog2 \<bar>x\<bar>) (- 126)"
  define z where "z = round_ties_even (x / 2 powi (e - 23))"
  have v: "v = of_int z * 2 powi (e - 23)"
    using assms unfolding round_float_nonzero [OF False] e_def [symmetric] z_def [symmetric]
    by (simp split: if_splits)
  define j where "j = nat (e + 126)"
  have "- 126 \<le> e" by (simp add: e_def)
  then have "e - 23 = int j + (- 149)" by (simp add: j_def)
  moreover have "(2::rat) powi (int j + (- 149)) = 2 powi (int j) * 2 powi (- 149)"
    by (rule power_int_add) simp
  ultimately have "(2::rat) powi (e - 23) = 2 powi (int j) * 2 powi (- 149)"
    by (simp only:)
  then have "v = of_int (z * 2 ^ j) * 2 powi (- 149)"
    by (simp add: v)
  then show ?thesis by blast
qed

lemma round_float_add_half:
  assumes grid: "v = of_int m * 2 powi (- 149)" and hi: "\<bar>v\<bar> \<le> 2 ^ 126"
  shows "\<exists>d. \<bar>d\<bar> \<le> 1 / 2 ^ 24 \<and> round_float (v + 1 / 2) = Finite ((v + 1 / 2) * (1 + d))"
proof (cases "2 powi (- 126) \<le> \<bar>v + 1 / 2\<bar>")
  case True
  have "\<bar>v + 1 / 2\<bar> \<le> \<bar>v\<bar> + 1 / 2" by linarith
  also have "\<dots> \<le> 2 ^ 126 + 1 / 2" using hi by simp
  also have "\<dots> \<le> 2 ^ 127" by simp
  finally show ?thesis using True by (intro round_float_rel)
next
  case False
  then have small: "\<bar>v + 1 / 2\<bar> < 2 powi (- 126)" by simp
  have sum: "v + 1 / 2 = of_int (m + 2 ^ 148) * 2 powi (- 149)"
    by (simp add: grid algebra_simps)
  have "\<bar>of_int (m + 2 ^ 148) :: rat\<bar> * 2 powi (- 149) < 2 powi (- 126)"
    using small unfolding sum by (simp add: abs_mult)
  then have "\<bar>of_int (m + 2 ^ 148) :: rat\<bar> < 2 ^ 23"
    by (simp add: field_simps)
  then have "\<bar>m + 2 ^ 148\<bar> < 2 ^ 23"
    by (simp flip: of_int_abs)
  then have n: "\<bar>m + 2 ^ 148\<bar> < 2 ^ 24" by simp
  have "\<bar>v + 1 / 2\<bar> < 2 ^ 128" using small by simp
  with sum n have "round_float (v + 1 / 2) = Finite (v + 1 / 2)"
    by (intro round_float_exact [where n = "m + 2 ^ 148" and k = "- 149"]) simp_all
  then have "\<bar>0::rat\<bar> \<le> 1 / 2 ^ 24 \<and> round_float (v + 1 / 2) = Finite ((v + 1 / 2) * (1 + 0))"
    by simp
  then show ?thesis by blast
qed

lemma round_float_rel0:
  assumes "x = 0 \<or> 2 powi (- 126) \<le> \<bar>x\<bar>" and "\<bar>x\<bar> \<le> 2 ^ 127"
  shows "\<exists>d. \<bar>d\<bar> \<le> 1 / 2 ^ 24 \<and> round_float x = Finite (x * (1 + d))"
proof (cases "x = 0")
  case True
  then have "\<bar>0::rat\<bar> \<le> 1 / 2 ^ 24 \<and> round_float x = Finite (x * (1 + 0))"
    by (simp add: round_float_def)
  then show ?thesis by blast
next
  case False
  with assms show ?thesis by (intro round_float_rel) simp_all
qed

lemma rounding_factor_bounds:
  fixes d :: rat
  assumes "\<bar>d\<bar> \<le> 1 / 2 ^ 24"
  shows "1 / 2 \<le> 1 + d" and "1 + d \<le> 2"
  using assms by (simp_all add: abs_le_iff)

lemma scaled_bounds:
  fixes a t :: rat
  assumes "lo \<le> \<bar>a\<bar>" "\<bar>a\<bar> \<le> hi" "1 / 2 \<le> t" "t \<le> 2" "0 \<le> lo"
  shows "lo / 2 \<le> \<bar>a * t\<bar>" and "\<bar>a * t\<bar> \<le> hi * 2"
proof -
  have t: "0 \<le> t" using assms(3) by simp
  then have eq: "\<bar>a * t\<bar> = \<bar>a\<bar> * t" by (simp add: abs_mult)
  have "lo * (1 / 2) \<le> \<bar>a\<bar> * t"
    using assms by (intro mult_mono) simp_all
  then show "lo / 2 \<le> \<bar>a * t\<bar>" by (simp add: eq)
  have "\<bar>a\<bar> * t \<le> hi * 2"
    using assms t by (intro mult_mono) simp_all
  then show "\<bar>a * t\<bar> \<le> hi * 2" by (simp add: eq)
qed

lemma float_of_int_96: "float_of_int USER_DEFAULT_SCREEN_DPI = Finite 96"
  by code_simp

lemma scale_rel:
  fixes dpi :: UINT
  assumes "dpi \<noteq> 0"
  shows "\<exists>s d1 d2. \<bar>d1\<bar> \<le> 1 / 2 ^ 24 \<and> \<bar>d2\<bar> \<le> 1 / 2 ^ 24 \<and>
     float_div (float_of_int (uint dpi)) (float_of_int USER_DEFAULT_SCREEN_DPI) = Finite s \<and>
     s = of_int (uint dpi) * (1 + d1) / 96 * (1 + d2) \<and> 1 / 512 \<le> s \<and> s \<le> 2 ^ 28"
proof -
  define i where "i = uint dpi"
  define a :: rat where "a = of_int i"
  have "i \<noteq> 0" using assms by (simp add: i_def uint_0_iff)
  moreover have "0 \<le> i" by (simp add: i_def)
  ultimately have "1 \<le> i" by linarith
  then have a1: "1 \<le> a" by (simp add: a_def)
  have "i < 2 ^ 32" using uint_bounded [of dpi] by (simp add: i_def)
  then have a2: "a \<le> 2 ^ 32" by (simp add: a_def)
  have a_abs: "\<bar>a\<bar> = a" using a1 by simp
  have "\<exists>d. \<bar>d\<bar> \<le> 1 / 2 ^ 24 \<and> round_float a = Finite (a * (1 + d))"
    using a1 a2 a_abs by (intro round_float_rel) simp_all
  then obtain d1 where d1: "\<bar>d1\<bar> \<le> 1 / 2 ^ 24" and r1: "round_float a = Finite (a * (1 + d1))"
    by blast
  define D where "D = a * (1 + d1)"
  have D: "1 / 2 \<le> \<bar>D\<bar>" "\<bar>D\<bar> \<le> 2 ^ 32 * 2"
    unfolding D_def
    using scaled_bounds [of 1 a "2 ^ 32" "1 + d1"] rounding_factor_bounds [OF d1] a1 a2 a_abs
    by simp_all
  have Dpos: "0 < D" unfolding D_def using a1 rounding_factor_bounds(1) [OF d1]
    by (intro mult_pos_pos) simp_all
  have q: "1 / 192 \<le> \<bar>D / 96\<bar>" "\<bar>D / 96\<bar> \<le> 2 ^ 33 / 96"
    using D by simp_all
  have "\<exists>d. \<bar>d\<bar> \<le> 1 / 2 ^ 24 \<and> round_float (D / 96) = Finite (D / 96 * (1 + d))"
    using q by (intro round_float_rel) simp_all
  then obtain d2 where d2: "\<bar>d2\<bar> \<le> 1 / 2 ^ 24"
    and r2: "round_float (D / 96) = Finite (D / 96 * (1 + d2))"
    by blast
  define s where "s = D / 96 * (1 + d2)"
  have sb: "1 / 192 / 2 \<le> \<bar>s\<bar>" "\<bar>s\<bar> \<le> 2 ^ 33 / 96 * 2"
    unfolding s_def
    using scaled_bounds [of "1 / 192" "D / 96" "2 ^ 33 / 96" "1 + d2"] rounding_factor_bounds [OF d2] q
    by simp_all
  have spos: "0 < s" unfolding s_def using Dpos rounding_factor_bounds(1) [OF d2]
    by (intro mult_pos_pos) simp_all
  have "float_div (float_of_int i) (float_of_int USER_DEFAULT_SCREEN_DPI)
      = float_div (round_float a) (Finite 96)"
    unfolding float_of_int_96 by (simp only: float_of_int_def a_def)
  also have "\<dots> = round_float (D / 96)" by (simp add: r1 D_def)
  also have "\<dots> = Finite s" by (simp only: r2 s_def)
  finally have "float_div (float_of_int i) (float_of_int USER_DEFAULT_SCREEN_DPI) = Finite s" .
  then have "float_div (float_of_int (uint dpi)) (float_of_int USER_DEFAULT_SCREEN_DPI) = Finite s"
    by (simp only: i_def)
  moreover have "s = of_int i * (1 + d1) / 96 * (1 + d2)"
    by (simp add: s_def D_def a_def)
  then have "s = of_int (uint dpi) * (1 + d1) / 96 * (1 + d2)"
    by (simp only: i_def)
  moreover have "1 / 512 \<le> s" "s \<le> 2 ^ 28" using sb spos by simp_all
  ultimately show ?thesis using d1 d2 by blast
qed

lemma logical_dimension_rel:
  fixes c :: LONG and s :: rat
  assumes s: "1 / 512 \<le> s" "s \<le> 2 ^ 28"
  shows "\<exists>d3 d4 d5. \<bar>d3\<bar> \<le> 1 / 2 ^ 24 \<and> \<bar>d4\<bar> \<le> 1 / 2 ^ 24 \<and> \<bar>d5\<bar> \<le> 1 / 2 ^ 24 \<and>
     float_add (float_div (float_of_int (sint c)) (Finite s)) (Finite (1 / 2))
       = Finite ((of_int (sint c) * (1 + d3) / s * (1 + d4) + 1 / 2) * (1 + d5))"
proof -
  define i where "i = sint c"
  define a :: rat where "a = of_int i"
  have spos: "0 < s" using s(1) by simp
  have "- (2 ^ 31) \<le> i" "i < 2 ^ 31"
    using sint_ge [of c] sint_lt [of c] by (simp_all add: i_def)
  then have "\<bar>i\<bar> \<le> 2 ^ 31" by simp
  then have a2: "\<bar>a\<bar> \<le> 2 ^ 31" unfolding a_def by (simp flip: of_int_abs)
  have a1: "a = 0 \<or> 1 \<le> \<bar>a\<bar>"
  proof (cases "i = 0")
    case True
    then show ?thesis by (simp add: a_def)
  next
    case False
    then have "1 \<le> \<bar>i\<bar>" by simp
    then have "1 \<le> \<bar>a\<bar>" unfolding a_def by (simp flip: of_int_abs)
    then show ?thesis by simp
  qed
  have "\<exists>d. \<bar>d\<bar> \<le> 1 / 2 ^ 24 \<and> round_float a = Finite (a * (1 + d))"
    using a1 a2 by (intro round_float_rel0) auto
  then obtain d3 where d3: "\<bar>d3\<bar> \<le> 1 / 2 ^ 24" and r3: "round_float a = Finite (a * (1 + d3))"
    by blast
  define C where "C = a * (1 + d3)"
  define x where "x = C / s"
  have x: "x = 0 \<or> 2 powi (- 126) \<le> \<bar>x\<bar>" and x2: "\<bar>x\<bar> \<le> 2 ^ 41"
  proof -
    have up: "\<bar>C\<bar> \<le> 2 ^ 31 * 2"
      unfolding C_def
      using scaled_bounds(2) [of 0 a "2 ^ 31" "1 + d3"] rounding_factor_bounds [OF d3] a2 by simp
    have "\<bar>x\<bar> = \<bar>C\<bar> / s" using spos by (simp add: x_def)
    also have "\<dots> \<le> (2 ^ 31 * 2) / s" using up spos by (intro divide_right_mono) simp_all
    also have "\<dots> \<le> (2 ^ 31 * 2) / (1 / 512)" using s(1) by (intro divide_left_mono) simp_all
    also have "\<dots> = 2 ^ 41" by simp
    finally show "\<bar>x\<bar> \<le> 2 ^ 41" .
    show "x = 0 \<or> 2 powi (- 126) \<le> \<bar>x\<bar>"
    proof (cases "a = 0")
      case True
      then show ?thesis by (simp add: x_def C_def)
    next
      case False
      with a1 have "1 \<le> \<bar>a\<bar>" by simp
      then have lo: "1 / 2 \<le> \<bar>C\<bar>"
        unfolding C_def
        using scaled_bounds(1) [of 1 a "2 ^ 31" "1 + d3"] rounding_factor_bounds [OF d3] a2 by simp
      have "(2::rat) powi (- 126) \<le> (1 / 2) / 2 ^ 28" by simp
      also have "\<dots> \<le> (1 / 2) / s" using s(2) spos by (intro divide_left_mono) simp_all
      also have "\<dots> \<le> \<bar>C\<bar> / s" using lo spos by (intro divide_right_mono) simp_all
      also have "\<dots> = \<bar>x\<bar>" using spos by (simp add: x_def)
      finally show ?thesis by simp
    qed
  qed
  have "\<exists>d. \<bar>d\<bar> \<le> 1 / 2 ^ 24 \<and> round_float x = Finite (x * (1 + d))"
    using x x2 by (intro round_float_rel0) simp_all
  then obtain d4 where d4: "\<bar>d4\<bar> \<le> 1 / 2 ^ 24" and r4: "round_float x = Finite (x * (1 + d4))"
    by blast
  define V where "V = x * (1 + d4)"
  have Vb: "\<bar>V\<bar> \<le> 2 ^ 126"
  proof -
    have "\<bar>V\<bar> \<le> 2 ^ 41 * 2"
      unfolding V_def
      using scaled_bounds(2) [of 0 x "2 ^ 41" "1 + d4"] rounding_factor_bounds [OF d4] x2 by simp
    then show ?thesis by simp
  qed
  obtain m where grid: "V = of_int m * 2 powi (- 149)"
    using round_float_grid [of x V] r4 by (auto simp add: V_def)
  obtain d5 where d5: "\<bar>d5\<bar> \<le> 1 / 2 ^ 24"
    and r5: "round_float (V + 1 / 2) = Finite ((V + 1 / 2) * (1 + d5))"
    using round_float_add_half [OF grid Vb] by blast
  have "float_add (float_div (float_of_int i) (Finite s)) (Finite (1 / 2))
       = Finite ((of_int i * (1 + d3) / s * (1 + d4) + 1 / 2) * (1 + d5))"
    using spos
    by (simp add: float_of_int_def a_def [symmetric] r3 C_def [symmetric] x_def [symmetric] r4
        V_def [symmetric] r5)
  then have "float_add (float_div (float_of_int (sint c)) (Finite s)) (Finite (1 / 2))
       = Finite ((of_int (sint c) * (1 + d3) / s * (1 + d4) + 1 / 2) * (1 + d5))"
    by (simp only: i_def)
  with d3 d4 d5 show ?thesis by blast
qed

lemma rounded_factor: "\<bar>d\<bar> \<le> 1 / 2 ^ 24 \<Longrightarrow> rounded x (x * (1 + d))"
proof -
  assume d: "\<bar>d\<bar> \<le> 1 / 2 ^ 24"
  have "\<bar>x * (1 + d) - x\<bar> = \<bar>x\<bar> * \<bar>d\<bar>" by (simp add: algebra_simps abs_mult)
  also have "\<dots> \<le> \<bar>x\<bar> * (1 / 2 ^ 24)" using d by (intro mult_left_mono) simp_all
  finally show ?thesis by (simp add: rounded_def)
qed

lemma round_float_of_int:
  assumes "\<bar>i\<bar> < 2 ^ 24"
  shows "round_float (of_int i) = Finite (of_int i)"
proof (rule round_float_exact [where n = i and k = 0])
  show "(of_int i :: rat) = of_int i * 2 powi 0" by simp
  show "\<bar>i\<bar> < 2 ^ 24" by (rule assms)
  show "- 149 \<le> (0::int)" by simp
  have "\<bar>of_int i :: rat\<bar> < 2 ^ 24" using assms by (simp flip: of_int_abs)
  then show "\<bar>of_int i :: rat\<bar> < 2 ^ 128" by simp
qed

lemma logical_dimension_at_scale_1:
  assumes "\<bar>i\<bar> < 2 ^ 23"
  shows "float_add (float_div (float_of_int i) (Finite 1)) (Finite (1 / 2))
           = Finite (of_int i + 1 / 2)"
proof -
  have i: "\<bar>i\<bar> < 2 ^ 24" using assms by simp
  have conv: "round_float (of_int i) = Finite (of_int i)"
    using i by (rule round_float_of_int)
  have "round_float (of_int i + 1 / 2) = Finite (of_int i + 1 / 2)"
  proof (rule round_float_exact [where n = "2 * i + 1" and k = "- 1"])
    show "(of_int i + 1 / 2 :: rat) = of_int (2 * i + 1) * 2 powi (- 1)"
      by (simp add: algebra_simps)
    show "\<bar>2 * i + 1\<bar> < 2 ^ 24" using assms by simp
    show "- 149 \<le> (- 1 :: int)" by simp
    have "\<bar>of_int i :: rat\<bar> < 2 ^ 23" using assms by (simp flip: of_int_abs)
    then show "\<bar>of_int i + 1 / 2 :: rat\<bar> < 2 ^ 128" by simp
  qed
  then show ?thesis
    by (simp add: float_of_int_def conv)
qed

section \<open>Properties of the DPI conversion\<close>

text \<open>
  Claim C1, as the code has it. With \<open>s\<close> the scale that \<open>GetCurrentDpiScale\<close> returns,
  \<open>GetLogicalSize\<close> returns in each dimension the single-precision value of
  \<open>physical / s + 0.5\<close>: the physical dimension converted to \<^verbatim>\<open>float\<close>, divided by \<open>s\<close>,
  plus one half. No floor is taken: at the scale 1 a physical size below \<open>2 ^ 23\<close> in each
  dimension has the logical size \<open>cx + 0.5\<close> by \<open>cy + 0.5\<close> exactly.
\<close>

theorem GetLogicalSize_unfloored:
  "(GetCurrentDpiScale os w = s \<longrightarrow>
      GetLogicalSize os w physicalSize =
        \<lparr>Width = float_add (float_div (float_of_int (sint (cx physicalSize))) s) (Finite (1 / 2)),
         Height = float_add (float_div (float_of_int (sint (cy physicalSize))) s) (Finite (1 / 2))\<rparr>) \<and>
   (GetCurrentDpiScale os w = Finite 1 \<and>
    \<bar>sint (cx physicalSize)\<bar> < 2 ^ 23 \<and> \<bar>sint (cy physicalSize)\<bar> < 2 ^ 23 \<longrightarrow>
      GetLogicalSize os w physicalSize =
        \<lparr>Width = Finite (of_int (sint (cx physicalSize)) + 1 / 2),
         Height = Finite (of_int (sint (cy physicalSize)) + 1 / 2)\<rparr>)"
proof (intro conjI impI)
  assume "GetCurrentDpiScale os w = s"
  then show "GetLogicalSize os w physicalSize =
        \<lparr>Width = float_add (float_div (float_of_int (sint (cx physicalSize))) s) (Finite (1 / 2)),
         Height = float_add (float_div (float_of_int (sint (cy physicalSize))) s) (Finite (1 / 2))\<rparr>"
    by (simp add: GetLogicalSize_def Let_def)
next
  assume a: "GetCurrentDpiScale os w = Finite 1 \<and>
    \<bar>sint (cx physicalSize)\<bar> < 2 ^ 23 \<and> \<bar>sint (cy physicalSize)\<bar> < 2 ^ 23"
  then have "float_add (float_div (float_of_int (sint (cx physicalSize))) (Finite 1)) (Finite (1 / 2))
           = Finite (of_int (sint (cx physicalSize)) + 1 / 2)"
    and "float_add (float_div (float_of_int (sint (cy physicalSize))) (Finite 1)) (Finite (1 / 2))
           = Finite (of_int (sint (cy physicalSize)) + 1 / 2)"
    by (simp_all only: logical_dimension_at_scale_1)
  with a show "GetLogicalSize os w physicalSize =
        \<lparr>Width = Finite (of_int (sint (cx physicalSize)) + 1 / 2),
         Height = Finite (of_int (sint (cy physicalSize)) + 1 / 2)\<rparr>"
    by (simp only: GetLogicalSize_def Let_def)
qed

theorem GetLogicalSize_unfloored_witness:
  "GetCurrentDpiScale (os_example 120 0) BaseWindow_init = Finite (5 / 4) \<and>
   GetLogicalSize (os_example 120 0) BaseWindow_init \<lparr>cx = 800, cy = 600\<rparr> =
     \<lparr>Width = Finite (1281 / 2), Height = Finite (961 / 2)\<rparr> \<and>
   GetCurrentDpiScale (os_example 96 0) BaseWindow_init = Finite 1 \<and>
   \<bar>sint (cx \<lparr>cx = 800, cy = 600\<rparr>)\<bar> < 2 ^ 23 \<and> \<bar>sint (cy \<lparr>cx = 800, cy = 600\<rparr>)\<bar> < 2 ^ 23 \<and>
   GetLogicalSize (os_example 96 0) BaseWindow_init \<lparr>cx = 800, cy = 600\<rparr> =
     \<lparr>Width = Finite (1601 / 2), Height = Finite (1201 / 2)\<rparr>"
proof -
  have s: "GetCurrentDpiScale (os_example 120 0) BaseWindow_init = Finite (5 / 4)"
    by code_simp
  have v: "float_add (float_div (float_of_int (sint (800 :: LONG))) (Finite (5 / 4))) (Finite (1 / 2))
      = Finite (1281 / 2)"
    "float_add (float_div (float_of_int (sint (600 :: LONG))) (Finite (5 / 4))) (Finite (1 / 2))
      = Finite (961 / 2)"
    by code_simp+
  have one: "GetCurrentDpiScale (os_example 96 0) BaseWindow_init = Finite 1"
    by code_simp
  have small: "\<bar>sint (cx \<lparr>cx = 800, cy = 600\<rparr>)\<bar> < 2 ^ 23 \<and> \<bar>sint (cy \<lparr>cx = 800, cy = 600\<rparr>)\<bar> < 2 ^ 23"
    by simp
  have "GetLogicalSize (os_example 120 0) BaseWindow_init \<lparr>cx = 800, cy = 600\<rparr> =
      \<lparr>Width = float_add (float_div (float_of_int (sint (cx \<lparr>cx = 800, cy = 600\<rparr>)))
                 (Finite (5 / 4))) (Finite (1 / 2)),
       Height = float_add (float_div (float_of_int (sint (cy \<lparr>cx = 800, cy = 600\<rparr>)))
                 (Finite (5 / 4))) (Finite (1 / 2))\<rparr>"
    using s GetLogicalSize_unfloored [of "os_example 120 0" BaseWindow_init "Finite (5 / 4)" "\<lparr>cx = 800, cy = 600\<rparr>"]
    by blast
  then have at_120: "GetLogicalSize (os_example 120 0) BaseWindow_init \<lparr>cx = 800, cy = 600\<rparr> =
      \<lparr>Width = Finite (1281 / 2), Height = Finite (961 / 2)\<rparr>"
    using v by simp
  have "GetLogicalSize (os_example 96 0) BaseWindow_init \<lparr>cx = 800, cy = 600\<rparr> =
      \<lparr>Width = Finite (of_int (sint (cx \<lparr>cx = 800, cy = 600\<rparr>)) + 1 / 2),
       Height = Finite (of_int (sint (cy \<lparr>cx = 800, cy = 600\<rparr>)) + 1 / 2)\<rparr>"
    using one small
      GetLogicalSize_unfloored [of "os_example 96 0" BaseWindow_init "Finite 1" "\<lparr>cx = 800, cy = 600\<rparr>"]
    by blast
  then have at_96: "GetLogicalSize (os_example 96 0) BaseWindow_init \<lparr>cx = 800, cy = 600\<rparr> =
      \<lparr>Width = Finite (1601 / 2), Height = Finite (1201 / 2)\<rparr>"
    by simp
  from s at_120 one small at_96 show ?thesis by blast
qed

text \<open>
  At 96 DPI the scale is 1, and a physical size of one pixel by one pixel has the logical size
  1.5 by 1.5, where the floor of \<open>1 / 1 + 0.5\<close> is 1.
\<close>

theorem GetLogicalSize_not_floor_rounded:
  "GetCurrentDpiScale (os_example 96 0) BaseWindow_init = Finite 1 \<and>
   GetLogicalSize (os_example 96 0) BaseWindow_init \<lparr>cx = 1, cy = 1\<rparr>
     = \<lparr>Width = Finite (3 / 2), Height = Finite (3 / 2)\<rparr> \<and>
   spec_floor_rounded 1 1 = 1 \<and>
   GetLogicalSize (os_example 96 0) BaseWindow_init \<lparr>cx = 1, cy = 1\<rparr>
     \<noteq> \<lparr>Width = Finite (spec_floor_rounded 1 1), Height = Finite (spec_floor_rounded 1 1)\<rparr>"
  by code_simp

text \<open>
  Claim C2. The scale is the DPI that \<open>GetDpiForWindow\<close> reports for the window, divided by
  \<^verbatim>\<open>USER_DEFAULT_SCREEN_DPI\<close>, and each logical dimension is the physical dimension divided by
  the scale, plus one half, each operation being the single-precision one. When the DPI is not 0,
  no operation overflows or divides by zero, and each one returns the exact result of the formula's
  operation on its operands within a relative error of \<open>2 powi -24\<close>: the conversion of the
  DPI, the division by 96, the conversion of the physical dimension, the division by the scale
  and the addition of one half.
\<close>

theorem GetLogicalSize_linear_formula:
  "GetCurrentDpiScale os w =
     float_div (float_of_int (uint (GetDpiForWindow_result os (m_window w))))
       (float_of_int USER_DEFAULT_SCREEN_DPI) \<and>
   Width (GetLogicalSize os w physicalSize) =
     float_add (float_div (float_of_int (sint (cx physicalSize))) (GetCurrentDpiScale os w))
       (Finite (1 / 2)) \<and>
   Height (GetLogicalSize os w physicalSize) =
     float_add (float_div (float_of_int (sint (cy physicalSize))) (GetCurrentDpiScale os w))
       (Finite (1 / 2)) \<and>
   (GetDpiForWindow_result os (m_window w) \<noteq> 0 \<longrightarrow>
      (\<exists>D s. rounded (of_int (uint (GetDpiForWindow_result os (m_window w)))) D \<and>
             rounded (D / of_int USER_DEFAULT_SCREEN_DPI) s \<and> 0 < s \<and>
             GetCurrentDpiScale os w = Finite s \<and>
         (\<exists>C V W. rounded (of_int (sint (cx physicalSize))) C \<and> rounded (C / s) V \<and>
                  rounded (V + 1 / 2) W \<and> Width (GetLogicalSize os w physicalSize) = Finite W) \<and>
         (\<exists>C V H. rounded (of_int (sint (cy physicalSize))) C \<and> rounded (C / s) V \<and>
                  rounded (V + 1 / 2) H \<and> Height (GetLogicalSize os w physicalSize) = Finite H)))"
proof (intro conjI impI)
  show scale: "GetCurrentDpiScale os w =
     float_div (float_of_int (uint (GetDpiForWindow_result os (m_window w))))
       (float_of_int USER_DEFAULT_SCREEN_DPI)"
    by (simp add: GetCurrentDpiScale_def Let_def)
  show width: "Width (GetLogicalSize os w physicalSize) =
     float_add (float_div (float_of_int (sint (cx physicalSize))) (GetCurrentDpiScale os w))
       (Finite (1 / 2))"
    by (simp add: GetLogicalSize_def Let_def)
  show height: "Height (GetLogicalSize os w physicalSize) =
     float_add (float_div (float_of_int (sint (cy physicalSize))) (GetCurrentDpiScale os w))
       (Finite (1 / 2))"
    by (simp add: GetLogicalSize_def Let_def)
  assume dpi: "GetDpiForWindow_result os (m_window w) \<noteq> 0"
  define a :: rat where "a = of_int (uint (GetDpiForWindow_result os (m_window w)))"
  obtain s d1 d2 where d: "\<bar>d1\<bar> \<le> 1 / 2 ^ 24" "\<bar>d2\<bar> \<le> 1 / 2 ^ 24"
    and s: "GetCurrentDpiScale os w = Finite s"
    and s_eq: "s = a * (1 + d1) / 96 * (1 + d2)"
    and sb: "1 / 512 \<le> s" "s \<le> 2 ^ 28"
    using scale_rel [OF dpi] unfolding scale a_def by blast
  define D where "D = a * (1 + d1)"
  have rD: "rounded a D" unfolding D_def using d(1) by (rule rounded_factor)
  have s_D: "s = D / 96 * (1 + d2)" by (simp add: s_eq D_def)
  have "rounded (D / 96) s"
    unfolding s_D using d(2) by (rule rounded_factor)
  then have rs: "rounded (D / of_int USER_DEFAULT_SCREEN_DPI) s"
    by (simp add: USER_DEFAULT_SCREEN_DPI_def)
  have spos: "0 < s" using sb(1) by simp
  have dim: "\<exists>C V W. rounded (of_int (sint c)) C \<and> rounded (C / s) V \<and> rounded (V + 1 / 2) W \<and>
      float_add (float_div (float_of_int (sint c)) (Finite s)) (Finite (1 / 2)) = Finite W"
    for c :: LONG
  proof -
    define i where "i = sint c"
    obtain d3 d4 d5 where e: "\<bar>d3\<bar> \<le> 1 / 2 ^ 24" "\<bar>d4\<bar> \<le> 1 / 2 ^ 24" "\<bar>d5\<bar> \<le> 1 / 2 ^ 24"
      and r: "float_add (float_div (float_of_int i) (Finite s)) (Finite (1 / 2))
         = Finite ((of_int i * (1 + d3) / s * (1 + d4) + 1 / 2) * (1 + d5))"
      using logical_dimension_rel [OF sb, of c] unfolding i_def by blast
    have "rounded (of_int i) (of_int i * (1 + d3))"
      using e(1) by (rule rounded_factor)
    moreover have "rounded (of_int i * (1 + d3) / s) (of_int i * (1 + d3) / s * (1 + d4))"
      using e(2) by (rule rounded_factor)
    moreover have "rounded (of_int i * (1 + d3) / s * (1 + d4) + 1 / 2)
        ((of_int i * (1 + d3) / s * (1 + d4) + 1 / 2) * (1 + d5))"
      using e(3) by (rule rounded_factor)
    ultimately show ?thesis using r unfolding i_def by blast
  qed
  show "\<exists>D s. rounded (of_int (uint (GetDpiForWindow_result os (m_window w)))) D \<and>
             rounded (D / of_int USER_DEFAULT_SCREEN_DPI) s \<and> 0 < s \<and>
             GetCurrentDpiScale os w = Finite s \<and>
         (\<exists>C V W. rounded (of_int (sint (cx physicalSize))) C \<and> rounded (C / s) V \<and>
                  rounded (V + 1 / 2) W \<and> Width (GetLogicalSize os w physicalSize) = Finite W) \<and>
         (\<exists>C V H. rounded (of_int (sint (cy physicalSize))) C \<and> rounded (C / s) V \<and>
                  rounded (V + 1 / 2) H \<and> Height (GetLogicalSize os w physicalSize) = Finite H)"
    using rD rs spos s dim [of "cx physicalSize"] dim [of "cy physicalSize"]
    unfolding width height s a_def by blast
qed


theorem GetLogicalSize_linear_formula_witness:
  "GetDpiForWindow_result (os_example 144 0) (m_window BaseWindow_init) \<noteq> 0 \<and>
   rounded 144 144 \<and> rounded (144 / 96) (3 / 2) \<and>
   GetCurrentDpiScale (os_example 144 0) BaseWindow_init = Finite (3 / 2) \<and>
   rounded 1000 1000 \<and> rounded (1000 / (3 / 2)) (10922667 / 16384) \<and>
   rounded (10922667 / 16384 + 1 / 2) (10930859 / 16384) \<and>
   GetLogicalSize (os_example 144 0) BaseWindow_init \<lparr>cx = 1000, cy = 700\<rparr>
     = \<lparr>Width = Finite (10930859 / 16384), Height = Finite (15308117 / 32768)\<rparr>"
proof -
  have dpi: "GetDpiForWindow_result (os_example 144 0) (m_window BaseWindow_init) \<noteq> 0"
    by (simp add: os_example_def)
  have r: "rounded 144 144" "rounded (144 / 96) (3 / 2)" "rounded 1000 1000"
    "rounded (1000 / (3 / 2)) (10922667 / 16384)"
    "rounded (10922667 / 16384 + 1 / 2) (10930859 / 16384)"
    by (simp_all add: rounded_def)
  have s: "GetCurrentDpiScale (os_example 144 0) BaseWindow_init = Finite (3 / 2)"
    by code_simp
  have v: "GetLogicalSize (os_example 144 0) BaseWindow_init \<lparr>cx = 1000, cy = 700\<rparr>
     = \<lparr>Width = Finite (10930859 / 16384), Height = Finite (15308117 / 32768)\<rparr>"
    by code_simp
  show ?thesis
    using dpi r s v
      GetLogicalSize_linear_formula [of "os_example 144 0" BaseWindow_init
        "\<lparr>cx = 1000, cy = 700\<rparr>"]
    by blast
qed

end
